theory Spec2Isabelle
  imports Complex_Main "HOL-Library.Word"
begin

unbundle bit_operations_syntax

section \<open>The MAX31856 driver (max31856.py)\<close>

text \<open>
  The driver keeps a bytearray \<open>regs\<close> mirroring the chip's 16 registers and talks to the
  chip through an SPI object and a chip-select pin. The model is a state record holding
  the fields of the object together with the part of the world the object can reach: the
  chronological list of calls made on the pin and on the SPI object, and the bytes the
  chip shifts out on MISO, indexed by the number of bytes clocked so far (SPI is full
  duplex: every byte sent clocks one byte in).

  Python integers are \<open>int\<close> (addresses and counts, which index and size bytearrays, are
  \<open>nat\<close>), the elements of a bytearray are \<open>8 word\<close>, and every exception the code can
  raise is a value of \<open>error\<close>. An operation returns its result or its exception together
  with the state it leaves behind, since a Python exception does not undo the mutations
  made before it.
\<close>

subsection \<open>Module constants\<close>

type_synonym byte = "8 word"

definition CR0_REG :: nat where "CR0_REG = 0x00"
definition CR0_AUTOCONVERT :: int where "CR0_AUTOCONVERT = 0x80"
definition CR0_ONESHOT :: int where "CR0_ONESHOT = 0x40"
definition CR0_OCFAULT1 :: int where "CR0_OCFAULT1 = 0x20"
definition CR0_OCFAULT0 :: int where "CR0_OCFAULT0 = 0x10"
definition CR0_CJ :: int where "CR0_CJ = 0x08"
definition CR0_FAULT :: int where "CR0_FAULT = 0x04"
definition CR0_FAULTCLR :: int where "CR0_FAULTCLR = 0x02"
definition CR0_50HZ :: int where "CR0_50HZ = 0x01"

definition CR1_REG :: nat where "CR1_REG = 0x01"
definition CR1_AVGSEL1 :: int where "CR1_AVGSEL1 = 0x00"
definition CR1_AVGSEL2 :: int where "CR1_AVGSEL2 = 0x10"
definition CR1_AVGSEL4 :: int where "CR1_AVGSEL4 = 0x20"
definition CR1_AVGSEL8 :: int where "CR1_AVGSEL8 = 0x30"
definition CR1_AVGSEL16 :: int where "CR1_AVGSEL16 = 0x40"

definition MASK_REG :: nat where "MASK_REG = 0x02"
definition CJTO_REG :: nat where "CJTO_REG = 0x09"
definition CJTH_REG :: nat where "CJTH_REG = 0x0A"
definition CJTL_REG :: nat where "CJTL_REG = 0x0B"
definition LTCBH_REG :: nat where "LTCBH_REG = 0x0C"
definition LTCBM_REG :: nat where "LTCBM_REG = 0x0D"
definition LTCBL_REG :: nat where "LTCBL_REG = 0x0E"
definition SR_REG :: nat where "SR_REG = 0x0F"

text \<open>The dict \<open>faults\<close>, in the order of its literal (a dict iterates in insertion order).\<close>

definition faults_tbl :: "(int \<times> string) list" where
  "faults_tbl =
     [(0x01, ''open''), (0x02, ''OV/UV''), (0x04, ''tclow''), (0x08, ''tchigh''),
      (0x10, ''cjlow''), (0x20, ''cjhigh''), (0x40, ''tcrange''), (0x80, ''cjrange'')]"

definition tctypes :: "(string \<times> int) list" where
  "tctypes =
     [(''B'', 0), (''E'', 1), (''J'', 2), (''K'', 3), (''N'', 4), (''R'', 5), (''S'', 6),
      (''T'', 7), (''VG8'', 8), (''VG32'', 12)]"

definition CR0_DEFAULT :: int where
  "CR0_DEFAULT = CR0_OCFAULT0 OR CR0_FAULTCLR OR CR0_AUTOCONVERT OR CR0_50HZ"

definition CR1_DEFAULT :: int where "CR1_DEFAULT = CR1_AVGSEL16"

subsection \<open>State, exceptions and sequencing\<close>

datatype error =
    KeyError string   \<comment> \<open>a dict lookup with a missing key\<close>
  | ValueError        \<comment> \<open>a bytearray element outside range(256)\<close>
  | IndexError        \<comment> \<open>a bytearray index out of range\<close>
  | NameError string  \<comment> \<open>a global name that is not bound in the module\<close>
  | StructError       \<comment> \<open>struct.unpack on a buffer of the wrong size\<close>

datatype event =
    CsValue nat                           \<comment> \<open>\<open>cs.value(v)\<close>\<close>
  | SpiInit nat nat nat                   \<comment> \<open>\<open>spi.init(baudrate, polarity, phase)\<close>\<close>
  | SpiWrite "byte list"                  \<comment> \<open>\<open>spi.write(b)\<close>\<close>
  | SpiWriteReadinto "byte list" "byte list"
      \<comment> \<open>\<open>spi.write_readinto(b, b)\<close>: the bytes sent and the bytes received\<close>

record Max31856 =
  tc_type :: string
  regs :: "byte list"
  bus :: "event list"
  miso :: "nat \<Rightarrow> byte"
  clk :: nat

type_synonym 'a action = "Max31856 \<Rightarrow> (error + 'a) \<times> Max31856"

definition ret :: "'a \<Rightarrow> 'a action" where
  "ret x s = (Inr x, s)"

definition raise :: "error \<Rightarrow> 'a action" where
  "raise e s = (Inl e, s)"

definition bnd :: "'a action \<Rightarrow> ('a \<Rightarrow> 'b action) \<Rightarrow> 'b action" where
  "bnd m f s = (case m s of (Inl e, s') \<Rightarrow> (Inl e, s') | (Inr x, s') \<Rightarrow> f x s')"

definition seq :: "'a action \<Rightarrow> 'b action \<Rightarrow> 'b action" where
  "seq m n = bnd m (\<lambda>_. n)"

subsection \<open>The pin, the SPI object and bytearrays\<close>

definition cs_value :: "nat \<Rightarrow> unit action" where
  "cs_value v s = (Inr (), s\<lparr>bus := bus s @ [CsValue v]\<rparr>)"

definition spi_init :: "nat \<Rightarrow> nat \<Rightarrow> nat \<Rightarrow> unit action" where
  "spi_init baudrate polarity phase s =
     (Inr (), s\<lparr>bus := bus s @ [SpiInit baudrate polarity phase]\<rparr>)"

definition spi_write :: "byte list \<Rightarrow> unit action" where
  "spi_write b s = (Inr (), s\<lparr>bus := bus s @ [SpiWrite b], clk := clk s + length b\<rparr>)"

definition spi_write_readinto :: "byte list \<Rightarrow> byte list action" where
  "spi_write_readinto b s =
     (let r = map (miso s) [clk s ..< clk s + length b]
      in (Inr r, s\<lparr>bus := bus s @ [SpiWriteReadinto b r], clk := clk s + length b\<rparr>))"

text \<open>Storing a Python integer into a bytearray: it must lie in range(256).\<close>

definition to_byte :: "int \<Rightarrow> byte action" where
  "to_byte n = (if 0 \<le> n \<and> n < 256 then ret (word_of_int n) else raise ValueError)"

text \<open>\<open>xs[i:j]\<close> for non-negative \<open>i\<close> and \<open>j\<close>: the bounds are clipped to the length.\<close>

definition slice :: "'a list \<Rightarrow> nat \<Rightarrow> nat \<Rightarrow> 'a list" where
  "slice xs i j = take (j - i) (drop i xs)"

text \<open>
  \<open>xs[i:j] = ys\<close> for \<open>i \<le> j\<close>: the (clipped) slice is replaced by \<open>ys\<close>, whatever the
  length of \<open>ys\<close>.
\<close>

definition set_slice :: "'a list \<Rightarrow> nat \<Rightarrow> nat \<Rightarrow> 'a list \<Rightarrow> 'a list" where
  "set_slice xs i j ys = take i xs @ ys @ drop j xs"

definition get_regs :: "byte list action" where
  "get_regs s = (Inr (regs s), s)"

definition put_regs :: "byte list \<Rightarrow> unit action" where
  "put_regs r s = (Inr (), s\<lparr>regs := r\<rparr>)"

definition getitem :: "nat \<Rightarrow> byte action" where
  "getitem i s = (if i < length (regs s) then (Inr (regs s ! i), s) else (Inl IndexError, s))"

definition setitem :: "nat \<Rightarrow> byte \<Rightarrow> unit action" where
  "setitem i v s =
     (if i < length (regs s) then (Inr (), s\<lparr>regs := (regs s)[i := v]\<rparr>)
      else (Inl IndexError, s))"

definition dict_lookup :: "(string \<times> 'v) list \<Rightarrow> string \<Rightarrow> 'v action" where
  "dict_lookup d k = (case map_of d k of None \<Rightarrow> raise (KeyError k) | Some v \<Rightarrow> ret v)"

subsection \<open>struct.unpack\<close>

text \<open>
  \<open>struct.unpack('>i', b)\<close> and \<open>struct.unpack('>h', b)\<close>: the buffer must have exactly 4
  (2) bytes, which are read big-endian as a two's complement integer.
\<close>

definition be_uint :: "byte list \<Rightarrow> int" where
  "be_uint bs = foldl (\<lambda>acc b. acc * 256 + uint b) 0 bs"

definition twos_complement :: "nat \<Rightarrow> int \<Rightarrow> int" where
  "twos_complement w v = (if v \<ge> 2 ^ (w - 1) then v - 2 ^ w else v)"

definition unpack_be_signed :: "nat \<Rightarrow> byte list \<Rightarrow> int action" where
  "unpack_be_signed n b =
     (if length b = n then ret (twos_complement (8 * n) (be_uint b)) else raise StructError)"

subsection \<open>The class Max31856\<close>

definition write_regs :: "nat \<Rightarrow> nat \<Rightarrow> unit action" where
  "write_regs start_addr count =
     seq (cs_value 0)
    (bnd (to_byte (int start_addr OR 0x80)) (\<lambda>a.
     bnd get_regs (\<lambda>r.
     let b = [a] @ slice r start_addr (start_addr + count) in
     seq (spi_write b)
         (cs_value 1))))"

definition read_regs :: "nat \<Rightarrow> nat \<Rightarrow> unit action" where
  "read_regs start_addr count =
     seq (cs_value 0)
    (bnd (to_byte (int start_addr)) (\<lambda>a.
     let b = (replicate (count + 1) 0)[0 := a] in
     bnd (spi_write_readinto b) (\<lambda>b.
     seq (cs_value 1)
    (bnd get_regs (\<lambda>r.
     put_regs (set_slice r start_addr (start_addr + count) (drop 1 b)))))))"

definition read_data :: "unit action" where
  "read_data = read_regs CJTH_REG 6"

text \<open>
  The module max31856.py imports \<open>struct\<close> and \<open>OrderedDict\<close> only; the name \<open>time\<close> is
  bound nowhere in it, so evaluating \<open>time.sleep(200)\<close> raises NameError.
\<close>

definition time_sleep :: "int \<Rightarrow> unit action" where
  "time_sleep secs = raise (NameError ''time'')"

definition one_shot :: "unit action" where
  "one_shot =
     seq (bnd (getitem CR0_REG) (\<lambda>v. setitem CR0_REG (v AND NOT (word_of_int CR0_AUTOCONVERT))))
    (seq (bnd (getitem CR0_REG) (\<lambda>v. setitem CR0_REG (v OR word_of_int CR0_ONESHOT)))
    (seq (write_regs CR0_REG 1)
    (seq (time_sleep 200)
         read_data)))"

text \<open>Lines 119 to 121 of \<open>__init__\<close>: the three stores into the mirror.\<close>

definition init_config :: "string \<Rightarrow> int \<Rightarrow> int \<Rightarrow> unit action" where
  "init_config tc cr0 cr1 =
     seq (bnd (to_byte cr0) (setitem CR0_REG))
    (seq (bnd (dict_lookup tctypes tc) (\<lambda>code.
          bnd (to_byte ((cr1 AND 0xF0) OR code)) (setitem CR1_REG)))
         (setitem MASK_REG 0))"

definition Max31856_init :: "string \<Rightarrow> int \<Rightarrow> int \<Rightarrow> unit action" where
  "Max31856_init tc cr0 cr1 =
     seq (\<lambda>s. (Inr (), s\<lparr>tc_type := tc\<rparr>))
    (seq (cs_value 1)
    (seq (spi_init 1000000 0 1)
    (seq (put_regs (replicate 16 0))
    (seq (read_regs CR0_REG 16)
    (seq (init_config tc cr0 cr1)
    (seq (write_regs CR0_REG 3)
         (read_regs CR0_REG 3)))))))"

text \<open>
  The float product \<open>t * 9.53674316406e-7\<close> is modelled by the product in the reals with
  the decimal constant as written; a double differs from it by a relative error below
  \<open>2\<^sup>-\<^sup>5\<^sup>0\<close>.
\<close>

definition temperature_scale :: real where
  "temperature_scale = 953674316406 / 10 ^ 18"

definition temperature :: "bool \<Rightarrow> real action" where
  "temperature read_chip =
     seq (if read_chip then read_data else ret ())
    (bnd get_regs (\<lambda>r.
     bnd (unpack_be_signed 4 (slice r LTCBH_REG (LTCBH_REG + 4))) (\<lambda>t.
     ret (real_of_int t * temperature_scale))))"

fun faults_loop :: "(int \<times> string) list \<Rightarrow> int \<Rightarrow> string list \<Rightarrow> string list" where
  "faults_loop [] f fl = fl"
| "faults_loop ((bitv, desc) # rest) f fl =
     faults_loop rest f (if f AND bitv \<noteq> 0 then fl @ [desc] else fl)"

fun join :: "string \<Rightarrow> string list \<Rightarrow> string" where
  "join sep [] = []"
| "join sep [x] = x"
| "join sep (x # y # ys) = x @ sep @ join sep (y # ys)"

definition faults :: "bool \<Rightarrow> (int \<times> string) action" where
  "faults read_chip =
     seq (if read_chip then read_data else ret ())
    (bnd (getitem SR_REG) (\<lambda>b.
     let f = uint b in
     if f = 0 then ret (0, '''')
     else let fl = faults_loop faults_tbl f [];
              fs = join ''+'' fl
          in ret (f, fs)))"

text \<open>\<open>1 / 256.0\<close> is a power of two: the product with a 16-bit integer is exact.\<close>

definition cold_junction :: "bool \<Rightarrow> real action" where
  "cold_junction read_chip =
     seq (if read_chip then read_data else ret ())
    (bnd get_regs (\<lambda>r.
     bnd (unpack_be_signed 2 (slice r CJTH_REG (CJTL_REG + 1))) (\<lambda>t.
     ret (real_of_int t * (1 / 256)))))"

text \<open>
  Example states: a mirror of 16 known bytes and a chip that answers the \<open>n\<close>-th byte
  clocked with \<open>0xA0 + n\<close>.
\<close>

definition demo_regs :: "byte list" where
  "demo_regs = [0x91, 0x43, 0x00, 0x7F, 0xC0, 0x7F, 0xFF, 0x80, 0x00, 0x00,
                0x19, 0x00, 0x00, 0x01, 0x86, 0xA0]"

definition demo_state :: Max31856 where
  "demo_state = \<lparr>tc_type = ''K'', regs = demo_regs, bus = [],
                  miso = (\<lambda>n. 0xA0 + word_of_nat n), clk = 0\<rparr>"

section \<open>Bus transactions\<close>

lemma or_write_bit_bound: "n \<le> 16 \<Longrightarrow> int n OR 0x80 < 256"
proof -
  assume a: "n \<le> 16"
  have "(int n AND 0x80) + (int n OR 0x80) = int n + 0x80"
    by (rule plus_and_or)
  moreover have "0 \<le> int n AND 0x80"
    by simp
  ultimately show ?thesis
    using a by linarith
qed

lemma word_of_or_write_bit: "(word_of_int (int n OR 0x80) :: byte) = word_of_nat n OR 0x80"
  by (simp add: word_wi_log_defs(3)[symmetric])

lemma write_regs_run:
  assumes "start_addr \<le> 16"
  shows "write_regs start_addr count s =
    (Inr (), s\<lparr>bus := bus s @ [CsValue 0,
                 SpiWrite ((word_of_nat start_addr OR 0x80) #
                           slice (regs s) start_addr (start_addr + count)),
                 CsValue 1],
             clk := clk s + length (slice (regs s) start_addr (start_addr + count)) + 1\<rparr>)"
  using or_write_bit_bound[OF assms]
  by (simp add: write_regs_def seq_def bnd_def cs_value_def to_byte_def ret_def get_regs_def
      spi_write_def word_of_or_write_bit)

lemma read_regs_run:
  assumes "start_addr \<le> 16"
  shows "read_regs start_addr count s =
    (Inr (), s\<lparr>bus := bus s @ [CsValue 0,
                 SpiWriteReadinto (word_of_nat start_addr # replicate count 0)
                     (map (miso s) [clk s ..< clk s + count + 1]),
                 CsValue 1],
             clk := clk s + count + 1,
             regs := set_slice (regs s) start_addr (start_addr + count)
                        (map (miso s) [clk s + 1 ..< clk s + count + 1])\<rparr>)"
  using assms
  by (simp add: read_regs_def seq_def bnd_def cs_value_def to_byte_def ret_def get_regs_def
      put_regs_def spi_write_readinto_def Let_def drop_map drop_upt del: upt_Suc)

lemma write_bit_alone: "bit (0x80 :: byte) 7"
  by (simp add: bit_iff_odd_drop_bit)

lemma write_bit_set: "bit (w OR 0x80 :: byte) 7"
  using write_bit_alone by (simp only: bit_or_iff simp_thms)

lemma read_bit_clear: "n \<le> 16 \<Longrightarrow> \<not> bit (word_of_nat n :: byte) 7"
proof -
  assume a: "n \<le> 16"
  have "\<not> bit n 7" using a by (simp add: bit_iff_odd)
  then show ?thesis by (simp add: bit_of_nat_iff)
qed

text \<open>
  Claim C5. With \<open>start_addr + count \<le> 16\<close> on a 16-byte mirror, \<open>write_regs\<close> issues one
  \<open>spi.write\<close> between the two chip-select calls: the address with bit 7 set, followed by the
  \<open>count\<close> mirror bytes from \<open>start_addr\<close>. \<open>read_regs\<close> issues one \<open>spi.write_readinto\<close> of
  \<open>count + 1\<close> bytes whose first byte is the address with bit 7 clear, and replaces
  \<open>regs[start_addr : start_addr + count]\<close> by the bytes received after the first.
\<close>

theorem regs_transaction_shape:
  assumes "start_addr + count \<le> 16" and "length (regs s) = 16"
  shows "write_regs start_addr count s =
           (Inr (), s\<lparr>bus := bus s @ [CsValue 0,
                        SpiWrite ((word_of_nat start_addr OR 0x80) #
                                  slice (regs s) start_addr (start_addr + count)),
                        CsValue 1],
                      clk := clk s + count + 1\<rparr>)
       \<and> bit (word_of_nat start_addr OR 0x80 :: byte) 7
       \<and> length (slice (regs s) start_addr (start_addr + count)) = count
       \<and> (\<forall>k < count. slice (regs s) start_addr (start_addr + count) ! k = regs s ! (start_addr + k))
       \<and> read_regs start_addr count s =
           (Inr (), s\<lparr>bus := bus s @ [CsValue 0,
                        SpiWriteReadinto (word_of_nat start_addr # replicate count 0)
                          (map (miso s) [clk s ..< clk s + count + 1]),
                        CsValue 1],
                      clk := clk s + count + 1,
                      regs := set_slice (regs s) start_addr (start_addr + count)
                                (drop 1 (map (miso s) [clk s ..< clk s + count + 1]))\<rparr>)
       \<and> \<not> bit (word_of_nat start_addr :: byte) 7
       \<and> length (word_of_nat start_addr # replicate count (0 :: byte)) = count + 1
       \<and> length (map (miso s) [clk s ..< clk s + count + 1]) = count + 1
       \<and> slice (regs (snd (read_regs start_addr count s))) start_addr (start_addr + count)
           = drop 1 (map (miso s) [clk s ..< clk s + count + 1])"
proof -
  from assms have sa: "start_addr \<le> 16" and le: "start_addr + count \<le> length (regs s)"
    by simp_all
  have len: "length (slice (regs s) start_addr (start_addr + count)) = count"
    using le by (simp add: slice_def)
  have nth: "\<forall>k < count. slice (regs s) start_addr (start_addr + count) ! k = regs s ! (start_addr + k)"
    using le by (simp add: slice_def)
  have w: "write_regs start_addr count s =
           (Inr (), s\<lparr>bus := bus s @ [CsValue 0,
                        SpiWrite ((word_of_nat start_addr OR 0x80) #
                                  slice (regs s) start_addr (start_addr + count)),
                        CsValue 1],
                      clk := clk s + count + 1\<rparr>)"
    using write_regs_run[OF sa, of count s] len by simp
  have dr: "drop 1 (map (miso s) [clk s ..< clk s + count + 1]) = map (miso s) [clk s + 1 ..< clk s + count + 1]"
    by (simp add: drop_map drop_upt del: upt_Suc)
  have r: "read_regs start_addr count s =
           (Inr (), s\<lparr>bus := bus s @ [CsValue 0,
                        SpiWriteReadinto (word_of_nat start_addr # replicate count 0)
                          (map (miso s) [clk s ..< clk s + count + 1]),
                        CsValue 1],
                      clk := clk s + count + 1,
                      regs := set_slice (regs s) start_addr (start_addr + count)
                                (drop 1 (map (miso s) [clk s ..< clk s + count + 1]))\<rparr>)"
    unfolding dr by (rule read_regs_run[OF sa])
  have rb: "slice (regs (snd (read_regs start_addr count s))) start_addr (start_addr + count)
           = drop 1 (map (miso s) [clk s ..< clk s + count + 1])"
    unfolding r dr using le by (simp add: slice_def set_slice_def)
  show ?thesis
    using w r rb len nth write_bit_set read_bit_clear[OF sa] by simp
qed

theorem regs_transaction_shape_witness:
  "(10::nat) + 6 \<le> 16 \<and> length (regs demo_state) = 16
   \<and> write_regs 10 6 demo_state =
       (Inr (), demo_state\<lparr>bus := [CsValue 0, SpiWrite [0x8A, 0x19, 0x00, 0x00, 0x01, 0x86, 0xA0],
                                    CsValue 1], clk := 7\<rparr>)
   \<and> read_regs 10 6 demo_state =
       (Inr (), demo_state\<lparr>bus := [CsValue 0,
                                    SpiWriteReadinto [0x0A, 0, 0, 0, 0, 0, 0]
                                      [0xA0, 0xA1, 0xA2, 0xA3, 0xA4, 0xA5, 0xA6],
                                    CsValue 1], clk := 7,
                            regs := [0x91, 0x43, 0x00, 0x7F, 0xC0, 0x7F, 0xFF, 0x80, 0x00, 0x00,
                                     0xA1, 0xA2, 0xA3, 0xA4, 0xA5, 0xA6]\<rparr>)"
proof -
  have h1: "(10::nat) + 6 \<le> 16" by simp
  have h2: "length (regs demo_state) = 16" by (simp add: demo_state_def demo_regs_def)
  have u: "[0 ..< 7] = [0, 1, 2, 3, 4, 5, Suc 5]" by (simp add: upt_rec)
  show ?thesis
    using regs_transaction_shape[OF h1 h2] h2 u
    by (simp add: demo_state_def demo_regs_def slice_def set_slice_def numeral_eq_Suc)
qed

text \<open>
  Claim C7. Under the same conditions neither \<open>write_regs\<close> nor \<open>read_regs\<close> changes a mirror
  byte at an index outside \<open>[start_addr, start_addr + count)\<close>; \<open>write_regs\<close> changes no
  mirror byte at all, and the mirror keeps its 16 bytes.
\<close>

theorem regs_frame:
  assumes "start_addr + count \<le> 16" and "length (regs s) = 16"
    and "i < 16" and "i < start_addr \<or> start_addr + count \<le> i"
  shows "regs (snd (write_regs start_addr count s)) ! i = regs s ! i
       \<and> regs (snd (read_regs start_addr count s)) ! i = regs s ! i
       \<and> regs (snd (write_regs start_addr count s)) = regs s
       \<and> length (regs (snd (read_regs start_addr count s))) = 16"
proof -
  from assms have sa: "start_addr \<le> 16" and le: "start_addr + count \<le> length (regs s)"
    and i: "i < length (regs s)"
    by simp_all
  have w: "regs (snd (write_regs start_addr count s)) = regs s"
    by (simp add: write_regs_run[OF sa])
  have r: "regs (snd (read_regs start_addr count s)) =
           set_slice (regs s) start_addr (start_addr + count)
             (map (miso s) [clk s + 1 ..< clk s + count + 1])"
    by (simp add: read_regs_run[OF sa])
  have rl: "length (regs (snd (read_regs start_addr count s))) = 16"
    unfolding r using le assms(2) by (simp add: set_slice_def del: upt_Suc)
  have ri: "regs (snd (read_regs start_addr count s)) ! i = regs s ! i"
    unfolding r using le i assms(4) by (auto simp add: set_slice_def nth_append simp del: upt_Suc)
  show ?thesis
    using w rl ri by simp
qed

theorem regs_frame_witness:
  "(10::nat) + 6 \<le> 16 \<and> length (regs demo_state) = 16 \<and> (3::nat) < 16 \<and> ((3::nat) < 10 \<or> (10::nat) + 6 \<le> 3)
   \<and> regs (snd (write_regs 10 6 demo_state)) ! 3 = 0x7F
   \<and> regs (snd (read_regs 10 6 demo_state)) ! 3 = 0x7F
   \<and> regs demo_state ! 3 = 0x7F"
proof -
  have h1: "(10::nat) + 6 \<le> 16" by simp
  have h2: "length (regs demo_state) = 16" by (simp add: demo_state_def demo_regs_def)
  have h3: "(3::nat) < 16" by simp
  have h4: "(3::nat) < 10 \<or> (10::nat) + 6 \<le> 3" by simp
  have v: "regs demo_state ! 3 = 0x7F" by (simp add: demo_state_def demo_regs_def)
  show ?thesis
    using regs_frame[OF h1 h2 h3 h4] h2 v by simp
qed

section \<open>read_data and one_shot\<close>

text \<open>
  Claim C8, as stated, fails: the six bytes read from \<open>CJTH_REG\<close> end at \<open>SR_REG\<close> (0x0F), one
  register past \<open>LTCBL_REG\<close> (0x0E); on the example state the status byte of the mirror is
  overwritten by the transaction.
\<close>

theorem read_data_span_counterexample:
  "CJTH_REG + 6 - 1 = SR_REG \<and> LTCBL_REG < SR_REG
   \<and> regs demo_state ! SR_REG = 0xA0
   \<and> regs (snd (read_data demo_state)) ! SR_REG = 0xA6"
proof -
  have u: "[Suc 0 ..< 7] = [1, 2, 3, 4, 5, Suc 5]" by (simp add: upt_rec)
  have sa: "CJTH_REG \<le> 16" by (simp add: CJTH_REG_def)
  have r: "regs (snd (read_data demo_state)) =
             set_slice (regs demo_state) CJTH_REG (CJTH_REG + 6)
               (map (miso demo_state) [clk demo_state + 1 ..< clk demo_state + 6 + 1])"
    unfolding read_data_def read_regs_run[OF sa] by simp
  show ?thesis
    unfolding r using u
    by (simp add: CJTH_REG_def SR_REG_def LTCBL_REG_def demo_state_def demo_regs_def
        set_slice_def)
qed

text \<open>
  Claim C8, amended. \<open>read_data\<close> performs exactly one \<open>read_regs\<close> transaction, of the six
  registers from \<open>CJTH_REG\<close> (0x0A) through \<open>SR_REG\<close> (0x0F): the cold-junction pair, the three
  linearized-temperature bytes and the status register are refreshed together, and the
  first ten mirror bytes are unchanged.
\<close>

theorem read_data_span:
  assumes "length (regs s) = 16"
  shows "read_data s =
           (Inr (), s\<lparr>bus := bus s @ [CsValue 0,
                        SpiWriteReadinto (word_of_nat CJTH_REG # replicate 6 0)
                          (map (miso s) [clk s ..< clk s + 7]),
                        CsValue 1],
                      clk := clk s + 7,
                      regs := take CJTH_REG (regs s) @ map (miso s) [clk s + 1 ..< clk s + 7]\<rparr>)
       \<and> CJTH_REG + 6 = SR_REG + 1
       \<and> length (regs (snd (read_data s))) = 16
       \<and> (\<forall>i < CJTH_REG. regs (snd (read_data s)) ! i = regs s ! i)
       \<and> (\<forall>k < 6. regs (snd (read_data s)) ! (CJTH_REG + k) = miso s (clk s + 1 + k))"
proof -
  have sa: "CJTH_REG \<le> 16" by (simp add: CJTH_REG_def)
  have r: "read_data s =
           (Inr (), s\<lparr>bus := bus s @ [CsValue 0,
                        SpiWriteReadinto (word_of_nat CJTH_REG # replicate 6 0)
                          (map (miso s) [clk s ..< clk s + 7]),
                        CsValue 1],
                      clk := clk s + 7,
                      regs := take CJTH_REG (regs s) @ map (miso s) [clk s + 1 ..< clk s + 7]\<rparr>)"
    unfolding read_data_def read_regs_run[OF sa] using assms
    by (simp add: set_slice_def CJTH_REG_def add.commute del: upt_Suc)
  have n: "\<forall>k < 6. (take CJTH_REG (regs s) @ map (miso s) [clk s + 1 ..< clk s + 7]) ! (CJTH_REG + k)
             = miso s (clk s + 1 + k)"
    using assms by (simp add: nth_append CJTH_REG_def del: upt_Suc)
  have m: "\<forall>i < CJTH_REG. (take CJTH_REG (regs s) @ map (miso s) [clk s + 1 ..< clk s + 7]) ! i
             = regs s ! i"
    using assms by (simp add: nth_append CJTH_REG_def del: upt_Suc)
  have l: "length (take CJTH_REG (regs s) @ map (miso s) [clk s + 1 ..< clk s + 7]) = 16"
    using assms by (simp add: CJTH_REG_def del: upt_Suc)
  have c: "CJTH_REG + 6 = SR_REG + 1" by (simp add: CJTH_REG_def SR_REG_def)
  show ?thesis
    unfolding r using n m l c by simp
qed

theorem read_data_span_witness:
  "length (regs demo_state) = 16
   \<and> bus (snd (read_data demo_state)) =
       [CsValue 0,
        SpiWriteReadinto [0x0A, 0, 0, 0, 0, 0, 0] [0xA0, 0xA1, 0xA2, 0xA3, 0xA4, 0xA5, 0xA6],
        CsValue 1]
   \<and> regs (snd (read_data demo_state)) =
       [0x91, 0x43, 0x00, 0x7F, 0xC0, 0x7F, 0xFF, 0x80, 0x00, 0x00,
        0xA1, 0xA2, 0xA3, 0xA4, 0xA5, 0xA6]"
proof -
  have h: "length (regs demo_state) = 16" by (simp add: demo_state_def demo_regs_def)
  have u: "[0 ..< 7] = [0, 1, 2, 3, 4, 5, Suc 5]" by (simp add: upt_rec)
  have u1: "[Suc 0 ..< 7] = [1, 2, 3, 4, 5, Suc 5]" by (simp add: upt_rec)
  show ?thesis
    using read_data_span[OF h] h u u1
    by (simp add: demo_state_def demo_regs_def CJTH_REG_def numeral_eq_Suc)
qed

text \<open>
  Claim C1. \<open>one_shot\<close> clears bit 7 and sets bit 6 of the mirror's CR0, sends that byte in
  one write transaction, and then raises NameError at \<open>time.sleep\<close>: no read transaction
  follows, so \<open>read_data\<close> is not reached.
\<close>

theorem one_shot_raises:
  assumes "length (regs s) = 16"
  shows "one_shot s =
           (Inl (NameError ''time''),
            s\<lparr>regs := (regs s)[CR0_REG := (regs s ! CR0_REG AND NOT 0x80) OR 0x40],
              bus := bus s @ [CsValue 0,
                       SpiWrite [0x80, (regs s ! CR0_REG AND NOT 0x80) OR 0x40],
                       CsValue 1],
              clk := clk s + 2\<rparr>)"
proof -
  have sa: "CR0_REG \<le> 16" by (simp add: CR0_REG_def)
  have ne: "CR0_REG < length (regs s)" using assms by (simp add: CR0_REG_def)
  have sl: "\<And>r. CR0_REG < length r \<Longrightarrow> slice r CR0_REG (Suc CR0_REG) = [r ! CR0_REG]"
    by (simp add: slice_def CR0_REG_def take_Suc_conv_app_nth)
  have w0: "(word_of_nat CR0_REG OR 0x80 :: byte) = 0x80"
    by (simp add: CR0_REG_def)
  show ?thesis
    using ne
    by (simp add: one_shot_def seq_def bnd_def getitem_def setitem_def write_regs_run[OF sa]
        time_sleep_def raise_def CR0_AUTOCONVERT_def CR0_ONESHOT_def sl w0)
qed

theorem one_shot_raises_witness:
  "length (regs demo_state) = 16
   \<and> one_shot demo_state =
       (Inl (NameError ''time''),
        demo_state\<lparr>regs := [0x51, 0x43, 0x00, 0x7F, 0xC0, 0x7F, 0xFF, 0x80, 0x00, 0x00,
                              0x19, 0x00, 0x00, 0x01, 0x86, 0xA0],
                    bus := [CsValue 0, SpiWrite [0x80, 0x51], CsValue 1],
                    clk := 2\<rparr>)"
proof -
  have h: "length (regs demo_state) = 16" by (simp add: demo_state_def demo_regs_def)
  show ?thesis
    using one_shot_raises[OF h] h
    by (simp add: demo_state_def demo_regs_def CR0_REG_def)
qed

section \<open>Construction\<close>

lemma tctypes_code_range: "map_of tctypes tc = Some code \<Longrightarrow> 0 \<le> code \<and> code < 16"
  by (auto simp add: tctypes_def split: if_splits)

lemma hi_mask: "(0xF0 :: int) = push_bit 4 (mask 4)"
  by (simp add: mask_eq_exp_minus_1)

lemma lo_mask: "(0x0F :: int) = mask 4"
  by (simp add: mask_eq_exp_minus_1)

lemma merge_hi_int:
  assumes "0 \<le> code" and "code < 16"
  shows "((cr1 AND 0xF0) OR code) AND 0xF0 = cr1 AND (0xF0 :: int)"
proof -
  have c: "take_bit 4 code = code"
    using assms by (simp add: take_bit_int_eq_self)
  have "((cr1 AND push_bit 4 (mask 4)) OR take_bit 4 code) AND push_bit 4 (mask 4)
        = cr1 AND push_bit 4 (mask 4 :: int)"
    by (rule bit_eqI) (auto simp add: bit_simps)
  then show ?thesis
    unfolding c hi_mask .
qed

lemma merge_lo_int:
  assumes "0 \<le> code" and "code < 16"
  shows "((cr1 AND 0xF0) OR code) AND 0x0F = (code :: int)"
proof -
  have c: "take_bit 4 code = code"
    using assms by (simp add: take_bit_int_eq_self)
  have "((cr1 AND push_bit 4 (mask 4)) OR take_bit 4 code) AND mask 4 = take_bit 4 (code :: int)"
    by (rule bit_eqI) (auto simp add: bit_simps)
  then show ?thesis
    unfolding c hi_mask lo_mask .
qed

lemma merge_range:
  assumes "0 \<le> code" and "code < 16"
  shows "0 \<le> (cr1 AND 0xF0) OR code \<and> (cr1 AND 0xF0) OR code < (256 :: int)"
proof -
  have a0: "0 \<le> cr1 AND 0xF0" by simp
  have a1: "cr1 AND 0xF0 \<le> 0xF0" by (rule AND_upper2) simp
  have "((cr1 AND 0xF0) AND code) + ((cr1 AND 0xF0) OR code) = (cr1 AND 0xF0) + code"
    by (rule plus_and_or)
  moreover have "0 \<le> (cr1 AND 0xF0) AND code" using a0 by simp
  moreover have "0 \<le> (cr1 AND 0xF0) OR code" using a0 assms by simp
  ultimately show ?thesis using a1 assms by linarith
qed

lemma init_config_run:
  assumes t: "map_of tctypes tc = Some code" and c0: "0 \<le> cr0" "cr0 < 256"
    and l: "3 \<le> length (regs s)"
  shows "init_config tc cr0 cr1 s =
           (Inr (), s\<lparr>regs := (regs s)[CR0_REG := word_of_int cr0,
                                      CR1_REG := word_of_int ((cr1 AND 0xF0) OR code),
                                      MASK_REG := 0]\<rparr>)"
proof -
  from tctypes_code_range[OF t] have r: "0 \<le> code" "code < 16" by simp_all
  from merge_range[OF r, of cr1]
  have m: "0 \<le> (cr1 AND 0xF0) OR code" "(cr1 AND 0xF0) OR code < 256" by simp_all
  from l have ne: "regs s \<noteq> []" by auto
  show ?thesis
    using t c0 l m ne
    by (simp add: init_config_def seq_def bnd_def to_byte_def ret_def setitem_def dict_lookup_def
        CR0_REG_def CR1_REG_def MASK_REG_def)
qed

lemma init_config_fail:
  assumes t: "map_of tctypes tc = None" and c0: "0 \<le> cr0" "cr0 < 256"
    and l: "3 \<le> length (regs s)"
  shows "init_config tc cr0 cr1 s =
           (Inl (KeyError tc), s\<lparr>regs := (regs s)[CR0_REG := word_of_int cr0]\<rparr>)"
proof -
  from l have ne: "regs s \<noteq> []" by auto
  show ?thesis
    using t c0 l ne
    by (simp add: init_config_def seq_def bnd_def to_byte_def ret_def raise_def setitem_def
        dict_lookup_def CR0_REG_def)
qed

lemma init_prefix:
  "Max31856_init tc cr0 cr1 s =
     (case init_config tc cr0 cr1
            (s\<lparr>tc_type := tc,
               bus := bus s @ [CsValue 1, SpiInit 1000000 0 1, CsValue 0,
                        SpiWriteReadinto (replicate 17 0) (map (miso s) [clk s ..< clk s + 17]),
                        CsValue 1],
               clk := clk s + 17,
               regs := map (miso s) [clk s + 1 ..< clk s + 17]\<rparr>) of
        (Inl e, s') \<Rightarrow> (Inl e, s')
      | (Inr x, s') \<Rightarrow> bnd (write_regs CR0_REG 3) (\<lambda>_. read_regs CR0_REG 3) s')"
proof -
  have sa: "CR0_REG \<le> 16" by (simp add: CR0_REG_def)
  have z: "(word_of_nat CR0_REG :: byte) # replicate 16 0 = replicate 17 0"
    by (simp add: CR0_REG_def numeral_eq_Suc)
  have r0: "\<And>t. length (regs t) = 16 \<Longrightarrow> read_regs CR0_REG 16 t =
    (Inr (), t\<lparr>bus := bus t @ [CsValue 0,
                 SpiWriteReadinto (replicate 17 0) (map (miso t) [clk t ..< clk t + 17]),
                 CsValue 1],
             clk := clk t + 17,
             regs := map (miso t) [clk t + 1 ..< clk t + 17]\<rparr>)"
    unfolding read_regs_run[OF sa] z by (simp add: add.commute set_slice_def CR0_REG_def)
  show ?thesis
    by (simp add: Max31856_init_def seq_def bnd_def cs_value_def spi_init_def put_regs_def r0
        del: upt_Suc)
qed

lemma init_run_ok:
  assumes t: "map_of tctypes tc = Some code" and c0: "0 \<le> cr0" "cr0 < 256"
  shows "Max31856_init tc cr0 cr1 s =
     (Inr (),
      s\<lparr>tc_type := tc,
        bus := bus s @ [CsValue 1, SpiInit 1000000 0 1, CsValue 0,
                 SpiWriteReadinto (replicate 17 0) (map (miso s) [clk s ..< clk s + 17]),
                 CsValue 1, CsValue 0,
                 SpiWrite [0x80, word_of_int cr0, word_of_int ((cr1 AND 0xF0) OR code), 0],
                 CsValue 1, CsValue 0,
                 SpiWriteReadinto (replicate 4 0) (map (miso s) [clk s + 21 ..< clk s + 25]),
                 CsValue 1],
        clk := clk s + 25,
        regs := map (miso s) [clk s + 22 ..< clk s + 25] @
                drop 3 (map (miso s) [clk s + 1 ..< clk s + 17])\<rparr>)"
proof -
  let ?s2 = "s\<lparr>tc_type := tc,
               bus := bus s @ [CsValue 1, SpiInit 1000000 0 1, CsValue 0,
                        SpiWriteReadinto (replicate 17 0) (map (miso s) [clk s ..< clk s + 17]),
                        CsValue 1],
               clk := clk s + 17,
               regs := map (miso s) [clk s + 1 ..< clk s + 17]\<rparr>"
  have l: "3 \<le> length (regs ?s2)" by simp
  have sa: "CR0_REG \<le> 16" by (simp add: CR0_REG_def)
  have z: "(word_of_nat CR0_REG :: byte) # replicate 3 0 = replicate 4 0"
    by (simp add: CR0_REG_def numeral_eq_Suc)
  have w0: "(word_of_nat CR0_REG OR 0x80 :: byte) = 0x80"
    by (simp add: CR0_REG_def)
  have sl: "\<And>(r :: byte list) a b c. 3 \<le> length r \<Longrightarrow>
              slice (r[CR0_REG := a, CR1_REG := b, MASK_REG := c]) CR0_REG (CR0_REG + 3) = [a, b, c]"
  proof -
    fix r :: "byte list" and a b c
    assume "3 \<le> length r"
    then obtain x y z' rest where r: "r = x # y # z' # rest"
      by (metis Suc_le_length_iff numeral_3_eq_3)
    show "slice (r[CR0_REG := a, CR1_REG := b, MASK_REG := c]) CR0_REG (CR0_REG + 3) = [a, b, c]"
      unfolding r by (simp add: slice_def CR0_REG_def CR1_REG_def MASK_REG_def numeral_eq_Suc)
  qed
  have dr: "\<And>r a b c. 3 \<le> length r \<Longrightarrow>
              drop (CR0_REG + 3) (r[CR0_REG := a, CR1_REG := b, MASK_REG := c]) = drop 3 r"
    by (simp add: CR0_REG_def CR1_REG_def MASK_REG_def)
  show ?thesis
    unfolding init_prefix init_config_run[OF t c0 l]
    by (simp add: bnd_def write_regs_run[OF sa] read_regs_run[OF sa] z w0 sl dr set_slice_def
        add.commute del: upt_Suc)
       (simp add: CR0_REG_def)
qed

lemma init_run_fail:
  assumes t: "map_of tctypes tc = None" and c0: "0 \<le> cr0" "cr0 < 256"
  shows "Max31856_init tc cr0 cr1 s =
     (Inl (KeyError tc),
      s\<lparr>tc_type := tc,
        bus := bus s @ [CsValue 1, SpiInit 1000000 0 1, CsValue 0,
                 SpiWriteReadinto (replicate 17 0) (map (miso s) [clk s ..< clk s + 17]),
                 CsValue 1],
        clk := clk s + 17,
        regs := (map (miso s) [clk s + 1 ..< clk s + 17])[CR0_REG := word_of_int cr0]\<rparr>)"
proof -
  let ?s2 = "s\<lparr>tc_type := tc,
               bus := bus s @ [CsValue 1, SpiInit 1000000 0 1, CsValue 0,
                        SpiWriteReadinto (replicate 17 0) (map (miso s) [clk s ..< clk s + 17]),
                        CsValue 1],
               clk := clk s + 17,
               regs := map (miso s) [clk s + 1 ..< clk s + 17]\<rparr>"
  have l: "3 \<le> length (regs ?s2)" by simp
  show ?thesis
    unfolding init_prefix init_config_fail[OF t c0 l]
    by (simp del: upt_Suc)
qed

text \<open>
  Claim C3, as stated, fails on the name of the error: the module defines no
  \<open>InvalidThermocoupleType\<close>; an unknown type string makes the lookup \<open>tctypes[tc_type]\<close>
  raise KeyError.
\<close>

theorem init_unknown_type_counterexample:
  "fst (Max31856_init ''X'' CR0_DEFAULT CR1_DEFAULT demo_state) = Inl (KeyError ''X'')"
proof -
  have t: "map_of tctypes ''X'' = None" by (simp add: tctypes_def)
  have c: "0 \<le> CR0_DEFAULT" "CR0_DEFAULT < 256"
    by (simp_all add: CR0_DEFAULT_def CR0_OCFAULT0_def CR0_FAULTCLR_def CR0_AUTOCONVERT_def
        CR0_50HZ_def)
  show ?thesis
    unfolding init_run_fail[OF t c] by simp
qed

text \<open>
  Claim C3, amended. For a type string outside the ten keys of \<open>tctypes\<close> (and a \<open>cr0\<close> that
  fits a byte) construction fails with the KeyError of that string. The calls made on the
  bus up to the failure are the chip-select and SPI set-up and the 16-register read; no
  \<open>spi.write\<close>, hence no \<open>write_regs\<close>, is among them.
\<close>

theorem init_unknown_type:
  assumes "tc \<notin> {''B'', ''E'', ''J'', ''K'', ''N'', ''R'', ''S'', ''T'', ''VG8'', ''VG32''}"
    and "0 \<le> cr0" and "cr0 < 256"
  shows "fst (Max31856_init tc cr0 cr1 s) = Inl (KeyError tc)
       \<and> bus (snd (Max31856_init tc cr0 cr1 s)) =
           bus s @ [CsValue 1, SpiInit 1000000 0 1, CsValue 0,
                    SpiWriteReadinto (replicate 17 0) (map (miso s) [clk s ..< clk s + 17]),
                    CsValue 1]
       \<and> (\<forall>b. SpiWrite b \<notin> set (drop (length (bus s)) (bus (snd (Max31856_init tc cr0 cr1 s)))))"
proof -
  have t: "map_of tctypes tc = None"
    using assms(1) by (simp add: tctypes_def)
  show ?thesis
    unfolding init_run_fail[OF t assms(2,3)] by simp
qed

theorem init_unknown_type_witness:
  "''X'' \<notin> {''B'', ''E'', ''J'', ''K'', ''N'', ''R'', ''S'', ''T'', ''VG8'', ''VG32''}
   \<and> (0::int) \<le> 0x93 \<and> (0x93::int) < 256
   \<and> fst (Max31856_init ''X'' 0x93 0x40 demo_state) = Inl (KeyError ''X'')
   \<and> bus (snd (Max31856_init ''X'' 0x93 0x40 demo_state)) =
       [CsValue 1, SpiInit 1000000 0 1, CsValue 0,
        SpiWriteReadinto [0, 0, 0, 0, 0, 0, 0, 0, 0, 0, 0, 0, 0, 0, 0, 0, 0]
          [0xA0, 0xA1, 0xA2, 0xA3, 0xA4, 0xA5, 0xA6, 0xA7, 0xA8, 0xA9, 0xAA, 0xAB, 0xAC, 0xAD,
           0xAE, 0xAF, 0xB0],
        CsValue 1]"
proof -
  have h1: "''X'' \<notin> {''B'', ''E'', ''J'', ''K'', ''N'', ''R'', ''S'', ''T'', ''VG8'', ''VG32''}"
    by simp
  have h2: "(0::int) \<le> 0x93" by simp
  have h3: "(0x93::int) < 256" by simp
  have u: "[0 ..< 17] = [0, 1, 2, 3, 4, 5, 6, 7, 8, 9, 10, 11, 12, 13, 14, 15, Suc 15]"
    by (simp add: upt_rec)
  have z: "replicate 17 (0 :: byte) = [0, 0, 0, 0, 0, 0, 0, 0, 0, 0, 0, 0, 0, 0, 0, 0, 0]"
    by (simp add: numeral_eq_Suc)
  show ?thesis
    using init_unknown_type[OF h1 h2 h3, of "0x40" demo_state] h1 u
    by (simp add: demo_state_def z)
qed

text \<open>
  Claim C6. For a type string with code \<open>code\<close> in \<open>tctypes\<close>, lines 119 to 121 store
  \<open>(cr1 & 0xF0) | code\<close> into the mirror's CR1 (with \<open>cr0\<close> in CR0 and 0 in the mask register):
  its high nibble is that of \<open>cr1\<close>, its low nibble is the code. That byte is what the
  following \<open>write_regs(CR0_REG, 3)\<close> sends as CR1. For \<open>cr1 = 0x40\<close> and type K the byte is
  0x43.
\<close>

theorem cr1_merge:
  assumes "map_of tctypes tc = Some code" and "0 \<le> cr0" and "cr0 < 256"
    and "length (regs s) = 16"
  shows "init_config tc cr0 cr1 s =
           (Inr (), s\<lparr>regs := (regs s)[CR0_REG := word_of_int cr0,
                                      CR1_REG := word_of_int ((cr1 AND 0xF0) OR code),
                                      MASK_REG := 0]\<rparr>)
       \<and> ((cr1 AND 0xF0) OR code) AND 0xF0 = cr1 AND 0xF0
       \<and> ((cr1 AND 0xF0) OR code) AND 0x0F = code
       \<and> 0 \<le> (cr1 AND 0xF0) OR code \<and> (cr1 AND 0xF0) OR code < 256
       \<and> fst (Max31856_init tc cr0 cr1 s) = Inr ()
       \<and> bus (snd (Max31856_init tc cr0 cr1 s)) =
           bus s @ [CsValue 1, SpiInit 1000000 0 1, CsValue 0,
                    SpiWriteReadinto (replicate 17 0) (map (miso s) [clk s ..< clk s + 17]),
                    CsValue 1, CsValue 0,
                    SpiWrite [0x80, word_of_int cr0, word_of_int ((cr1 AND 0xF0) OR code), 0],
                    CsValue 1, CsValue 0,
                    SpiWriteReadinto (replicate 4 0) (map (miso s) [clk s + 21 ..< clk s + 25]),
                    CsValue 1]
       \<and> map_of tctypes ''K'' = Some 3
       \<and> ((0x40 AND 0xF0) OR 3 :: int) = 0x43"
proof -
  from tctypes_code_range[OF assms(1)] have r: "0 \<le> code" "code < 16" by simp_all
  have l: "3 \<le> length (regs s)" using assms(4) by simp
  have k: "map_of tctypes ''K'' = Some 3" by (simp add: tctypes_def)
  have e: "((0x40 AND 0xF0) OR 3 :: int) = 0x43" by simp
  show ?thesis
    using init_config_run[OF assms(1-3) l, of cr1] merge_hi_int[OF r, of cr1]
      merge_lo_int[OF r, of cr1] merge_range[OF r, of cr1] k e
    unfolding init_run_ok[OF assms(1-3)]
    by simp
qed

theorem cr1_merge_witness:
  "map_of tctypes ''K'' = Some 3 \<and> (0::int) \<le> 0x93 \<and> (0x93::int) < 256
   \<and> length (regs (demo_state\<lparr>regs := replicate 16 0xFF\<rparr>)) = 16
   \<and> init_config ''K'' 0x93 0x40 (demo_state\<lparr>regs := replicate 16 0xFF\<rparr>) =
       (Inr (), demo_state\<lparr>regs := [0x93, 0x43, 0x00, 0xFF, 0xFF, 0xFF, 0xFF, 0xFF, 0xFF, 0xFF,
                                      0xFF, 0xFF, 0xFF, 0xFF, 0xFF, 0xFF]\<rparr>)"
proof -
  have h1: "map_of tctypes ''K'' = Some 3" by (simp add: tctypes_def)
  have h2: "(0::int) \<le> 0x93" by simp
  have h3: "(0x93::int) < 256" by simp
  have h4: "length (regs (demo_state\<lparr>regs := replicate 16 0xFF\<rparr>)) = 16" by simp
  have z: "replicate 16 (0xFF :: byte) = [0xFF, 0xFF, 0xFF, 0xFF, 0xFF, 0xFF, 0xFF, 0xFF, 0xFF,
             0xFF, 0xFF, 0xFF, 0xFF, 0xFF, 0xFF, 0xFF]"
    by (simp add: numeral_eq_Suc)
  from cr1_merge[OF h1 h2 h3 h4, of "0x40"]
  have "init_config ''K'' 0x93 0x40 (demo_state\<lparr>regs := replicate 16 0xFF\<rparr>) =
          (Inr (), demo_state\<lparr>regs := (replicate 16 0xFF)[CR0_REG := 0x93,
                                      CR1_REG := 0x43, MASK_REG := 0]\<rparr>)"
    by simp
  then show ?thesis
    using h1 unfolding z
    by (simp add: CR0_REG_def CR1_REG_def MASK_REG_def)
qed

section \<open>Decoding the mirror\<close>

lemma faults_loop_filter:
  "faults_loop tbl f fl = fl @ map snd (filter (\<lambda>(b, d). f AND b \<noteq> 0) tbl)"
  by (induction tbl arbitrary: fl) auto

lemma and_bit_test: "(uint (f :: byte) AND 2 ^ i \<noteq> 0) = bit f i"
  by (auto simp add: and_exp_eq_0_iff_not_bit bit_uint_iff dest: bit_imp_le_length)

lemma filter_by_bit:
  "map snd (filter (\<lambda>(b, d). uint (f :: byte) AND b \<noteq> 0) (map (\<lambda>i. (2 ^ i, nm i)) js))
     = map nm (filter (bit f) js)"
  by (induction js) (simp_all add: and_bit_test)

lemma upt8: "[0 ..< 8] = [0, 1, 2, 3, 4, 5, 6, Suc 6]"
  by (simp add: upt_rec)

lemma faults_tbl_by_bit: "faults_tbl = map (\<lambda>i. (2 ^ i, snd (faults_tbl ! i))) [0 ..< 8]"
  unfolding upt8 by (simp add: faults_tbl_def)

lemma faults_tbl_bits: "i < 8 \<Longrightarrow> fst (faults_tbl ! i) = 2 ^ i"
proof -
  assume "i < 8"
  then have "i \<in> set [0 ..< 8]" by simp
  then show ?thesis
    unfolding upt8 by (auto simp add: faults_tbl_def)
qed

lemma faults_tbl_distinct: "distinct (map snd faults_tbl)"
  by (simp add: faults_tbl_def)

lemma faults_run:
  assumes "SR_REG < length (regs s)"
  shows "faults False s =
    (Inr (uint (regs s ! SR_REG),
          join ''+'' (map (\<lambda>i. snd (faults_tbl ! i)) (filter (bit (regs s ! SR_REG)) [0 ..< 8]))),
     s)"
proof -
  let ?f = "regs s ! SR_REG"
  have e: "map snd (filter (\<lambda>(b, d). uint ?f AND b \<noteq> 0) faults_tbl)
             = map (\<lambda>i. snd (faults_tbl ! i)) (filter (bit ?f) [0 ..< 8])"
    by (subst faults_tbl_by_bit) (rule filter_by_bit)
  have z: "?f = 0 \<Longrightarrow> filter (bit ?f) [0 ..< 8] = []"
    by simp
  show ?thesis
  proof (cases "?f = 0")
    case True
    then show ?thesis
      using assms z
      by (simp add: faults_def seq_def bnd_def ret_def getitem_def del: upt_Suc)
  next
    case False
    then have "uint ?f \<noteq> 0" by (simp add: uint_0_iff)
    then show ?thesis
      using assms
      by (simp add: faults_def seq_def bnd_def ret_def getitem_def Let_def faults_loop_filter e
          del: upt_Suc)
  qed
qed

lemma faults_0x11:
  assumes "SR_REG < length (regs s)" and "regs s ! SR_REG = 0x11"
  shows "faults False s = (Inr (17, ''open+cjlow''), s)"
  using assms
  by (simp add: faults_def seq_def bnd_def ret_def getitem_def Let_def faults_tbl_def)

lemma join_concat: "join sep (x # xs) = x @ concat (map (\<lambda>y. sep @ y) xs)"
  by (induction xs arbitrary: x) simp_all

lemma faults_run_concat:
  assumes "SR_REG < length (regs s)"
  shows "faults False s =
    (Inr (uint (regs s ! SR_REG),
          (case map (\<lambda>i. snd (faults_tbl ! i)) (filter (bit (regs s ! SR_REG)) [0 ..< 8]) of
             [] \<Rightarrow> []
           | d # ds \<Rightarrow> d @ concat (map (\<lambda>y. ''+'' @ y) ds))),
     s)"
proof (cases "map (\<lambda>i. snd (faults_tbl ! i)) (filter (bit (regs s ! SR_REG)) [0 ..< 8])")
  case Nil
  then show ?thesis
    unfolding faults_run[OF assms] by (simp del: upt_Suc)
next
  case (Cons d ds)
  show ?thesis
    unfolding faults_run[OF assms] Cons by (simp only: join_concat list.case)
qed

lemma faults_0x01:
  assumes "SR_REG < length (regs s)" and "regs s ! SR_REG = 0x01"
  shows "faults False s = (Inr (1, ''open''), s)"
  using assms
  by (simp add: faults_def seq_def bnd_def ret_def getitem_def Let_def faults_tbl_def)

lemma faults_0x88:
  assumes "SR_REG < length (regs s)" and "regs s ! SR_REG = 0x88"
  shows "faults False s = (Inr (136, ''tchigh+cjrange''), s)"
  using assms
  by (simp add: faults_def seq_def bnd_def ret_def getitem_def Let_def faults_tbl_def)

lemma faults_0xFF:
  assumes "SR_REG < length (regs s)" and "regs s ! SR_REG = 0xFF"
  shows "faults False s =
           (Inr (255, ''open+OV/UV+tclow+tchigh+cjlow+cjhigh+tcrange+cjrange''), s)"
  using assms
  by (simp add: faults_def seq_def bnd_def ret_def getitem_def Let_def faults_tbl_def)

lemma faults_tbl_no_plus: "i < 8 \<Longrightarrow> CHR ''+'' \<notin> set (snd (faults_tbl ! i))"
proof -
  assume "i < 8"
  then have "i \<in> set [0 ..< 8]" by simp
  then show ?thesis
    unfolding upt8 by (auto simp add: faults_tbl_def)
qed

text \<open>
  Claim C4. \<open>faults()\<close> returns the status byte together with the descriptions of its set
  bits, taken from the table in ascending bit order and joined by \<open>+\<close>: the returned string
  is the first description followed by each further one behind a \<open>+\<close>, and the description
  of bit \<open>i\<close> is among them exactly when bit \<open>i\<close> of the status byte is set. No
  description contains the delimiter. A zero status byte gives \<open>(0, '')\<close>, the byte 0x11
  gives \<open>(17, 'open+cjlow')\<close>, a lone bit 0 gives \<open>(1, 'open')\<close>, and 0xFF gives all
  eight descriptions.
\<close>

theorem faults_decode:
  assumes "length (regs s) = 16"
  shows "faults False s =
           (Inr (uint (regs s ! SR_REG),
                 (case map (\<lambda>i. snd (faults_tbl ! i))
                           (filter (bit (regs s ! SR_REG)) [0 ..< 8]) of
                    [] \<Rightarrow> []
                  | d # ds \<Rightarrow> d @ concat (map (\<lambda>y. ''+'' @ y) ds))), s)
       \<and> (regs s ! SR_REG = 0 \<longrightarrow> faults False s = (Inr (0, ''''), s))
       \<and> length faults_tbl = 8
       \<and> (\<forall>i < 8. fst (faults_tbl ! i) = 2 ^ i)
       \<and> (\<forall>i < 8. (snd (faults_tbl ! i)
                      \<in> set (map (\<lambda>i. snd (faults_tbl ! i))
                                (filter (bit (regs s ! SR_REG)) [0 ..< 8])))
                    = bit (regs s ! SR_REG) i)
       \<and> (regs s ! SR_REG = 0x11 \<longrightarrow> faults False s = (Inr (17, ''open+cjlow''), s))
       \<and> map snd faults_tbl = [''open'', ''OV/UV'', ''tclow'', ''tchigh'',
                                ''cjlow'', ''cjhigh'', ''tcrange'', ''cjrange'']
       \<and> (\<forall>i < 8. CHR ''+'' \<notin> set (snd (faults_tbl ! i)))
       \<and> (regs s ! SR_REG = 0x01 \<longrightarrow> faults False s = (Inr (1, ''open''), s))
       \<and> (regs s ! SR_REG = 0x88 \<longrightarrow> faults False s = (Inr (136, ''tchigh+cjrange''), s))
       \<and> (regs s ! SR_REG = 0xFF \<longrightarrow> faults False s =
            (Inr (255, ''open+OV/UV+tclow+tchigh+cjlow+cjhigh+tcrange+cjrange''), s))"
proof -
  let ?f = "regs s ! SR_REG"
  have sr: "SR_REG < length (regs s)" using assms by (simp add: SR_REG_def)
  note a = faults_run_concat[OF sr]
  have b: "?f = 0 \<longrightarrow> faults False s = (Inr (0, ''''), s)"
    unfolding a by (simp del: upt_Suc)
  have c: "length faults_tbl = 8" by (simp add: faults_tbl_def)
  have d: "\<forall>i < 8. fst (faults_tbl ! i) = 2 ^ i"
    using faults_tbl_bits by blast
  have inj: "\<And>i j. i < 8 \<Longrightarrow> j < 8 \<Longrightarrow> snd (faults_tbl ! i) = snd (faults_tbl ! j) \<Longrightarrow> i = j"
  proof -
    fix i j :: nat
    assume ij: "i < 8" "j < 8" and eq: "snd (faults_tbl ! i) = snd (faults_tbl ! j)"
    have m: "map snd faults_tbl ! i = map snd faults_tbl ! j"
      using ij eq c by simp
    have "(map snd faults_tbl ! i = map snd faults_tbl ! j) = (i = j)"
      by (rule nth_eq_iff_index_eq[OF faults_tbl_distinct]) (simp_all add: c ij)
    with m show "i = j" by simp
  qed
  have e: "\<forall>i < 8. (snd (faults_tbl ! i)
                      \<in> set (map (\<lambda>i. snd (faults_tbl ! i)) (filter (bit ?f) [0 ..< 8])))
                    = bit ?f i"
  proof (intro allI impI)
    fix i :: nat
    assume i: "i < 8"
    show "(snd (faults_tbl ! i)
             \<in> set (map (\<lambda>i. snd (faults_tbl ! i)) (filter (bit ?f) [0 ..< 8]))) = bit ?f i"
    proof
      assume "snd (faults_tbl ! i)
                \<in> set (map (\<lambda>i. snd (faults_tbl ! i)) (filter (bit ?f) [0 ..< 8]))"
      then obtain j where j: "j < 8" "bit ?f j" "snd (faults_tbl ! i) = snd (faults_tbl ! j)"
        by auto
      from inj[OF i j(1) j(3)] j(2) show "bit ?f i" by simp
    next
      assume "bit ?f i"
      then have "i \<in> set (filter (bit ?f) [0 ..< 8])" using i by simp
      then show "snd (faults_tbl ! i)
                   \<in> set (map (\<lambda>i. snd (faults_tbl ! i)) (filter (bit ?f) [0 ..< 8]))"
        unfolding set_map by (rule imageI)
    qed
  qed
  have g: "?f = 0x11 \<longrightarrow> faults False s = (Inr (17, ''open+cjlow''), s)"
    using faults_0x11[OF sr] by blast
  have h: "map snd faults_tbl = [''open'', ''OV/UV'', ''tclow'', ''tchigh'',
                                 ''cjlow'', ''cjhigh'', ''tcrange'', ''cjrange'']"
    by (simp add: faults_tbl_def)
  have k: "\<forall>i < 8. CHR ''+'' \<notin> set (snd (faults_tbl ! i))"
    using faults_tbl_no_plus by blast
  have p1: "?f = 0x01 \<longrightarrow> faults False s = (Inr (1, ''open''), s)"
    using faults_0x01[OF sr] by blast
  have p2: "?f = 0x88 \<longrightarrow> faults False s = (Inr (136, ''tchigh+cjrange''), s)"
    using faults_0x88[OF sr] by blast
  have p3: "?f = 0xFF \<longrightarrow> faults False s =
            (Inr (255, ''open+OV/UV+tclow+tchigh+cjlow+cjhigh+tcrange+cjrange''), s)"
    using faults_0xFF[OF sr] by blast
  from a b c d e g h k p1 p2 p3 show ?thesis
    by (intro conjI)
qed

theorem faults_decode_witness:
  "length (regs (demo_state\<lparr>regs := demo_regs[SR_REG := 0x11]\<rparr>)) = 16
   \<and> faults False (demo_state\<lparr>regs := demo_regs[SR_REG := 0x11]\<rparr>)
       = (Inr (17, ''open+cjlow''), demo_state\<lparr>regs := demo_regs[SR_REG := 0x11]\<rparr>)
   \<and> length (regs (demo_state\<lparr>regs := demo_regs[SR_REG := 0]\<rparr>)) = 16
   \<and> faults False (demo_state\<lparr>regs := demo_regs[SR_REG := 0]\<rparr>)
       = (Inr (0, ''''), demo_state\<lparr>regs := demo_regs[SR_REG := 0]\<rparr>)
   \<and> length (regs (demo_state\<lparr>regs := demo_regs[SR_REG := 0xFF]\<rparr>)) = 16
   \<and> faults False (demo_state\<lparr>regs := demo_regs[SR_REG := 0xFF]\<rparr>)
       = (Inr (255, ''open+OV/UV+tclow+tchigh+cjlow+cjhigh+tcrange+cjrange''),
          demo_state\<lparr>regs := demo_regs[SR_REG := 0xFF]\<rparr>)
   \<and> length (regs demo_state) = 16
   \<and> faults False demo_state = (Inr (160, ''cjhigh+cjrange''), demo_state)"
proof -
  have lr: "length demo_regs = 16"
    by (simp add: demo_regs_def)
  have sr: "SR_REG < length demo_regs"
    by (simp add: lr SR_REG_def)
  have h1: "length (regs (demo_state\<lparr>regs := demo_regs[SR_REG := 0x11]\<rparr>)) = 16"
    by (simp add: lr)
  have h2: "length (regs (demo_state\<lparr>regs := demo_regs[SR_REG := 0]\<rparr>)) = 16"
    by (simp add: lr)
  have h3: "length (regs (demo_state\<lparr>regs := demo_regs[SR_REG := 0xFF]\<rparr>)) = 16"
    by (simp add: lr)
  have h4: "length (regs demo_state) = 16"
    by (simp add: lr demo_state_def)
  have v1: "regs (demo_state\<lparr>regs := demo_regs[SR_REG := 0x11]\<rparr>) ! SR_REG = 0x11"
    using sr by simp
  have v2: "regs (demo_state\<lparr>regs := demo_regs[SR_REG := 0]\<rparr>) ! SR_REG = 0"
    using sr by simp
  have v3: "regs (demo_state\<lparr>regs := demo_regs[SR_REG := 0xFF]\<rparr>) ! SR_REG = 0xFF"
    using sr by simp
  have v4: "regs demo_state ! SR_REG = 0xA0"
    by (simp add: demo_state_def demo_regs_def SR_REG_def)
  have f4: "filter (bit (0xA0 :: byte)) [0 ..< 8] = [5, 7]"
    unfolding upt8 by (simp add: bit_iff_odd_drop_bit drop_bit_eq_div)
  have u4: "uint (0xA0 :: byte) = 160"
    by simp
  have t4: "faults False demo_state = (Inr (160, ''cjhigh+cjrange''), demo_state)"
    using conjunct1[OF faults_decode[OF h4]] unfolding v4 f4 u4
    by (simp add: faults_tbl_def)
  have t1: "faults False (demo_state\<lparr>regs := demo_regs[SR_REG := 0x11]\<rparr>)
       = (Inr (17, ''open+cjlow''), demo_state\<lparr>regs := demo_regs[SR_REG := 0x11]\<rparr>)"
    using faults_decode[OF h1] v1 by blast
  have t2: "faults False (demo_state\<lparr>regs := demo_regs[SR_REG := 0]\<rparr>)
       = (Inr (0, ''''), demo_state\<lparr>regs := demo_regs[SR_REG := 0]\<rparr>)"
    using faults_decode[OF h2] v2 by blast
  have t3: "faults False (demo_state\<lparr>regs := demo_regs[SR_REG := 0xFF]\<rparr>)
       = (Inr (255, ''open+OV/UV+tclow+tchigh+cjlow+cjhigh+tcrange+cjrange''),
          demo_state\<lparr>regs := demo_regs[SR_REG := 0xFF]\<rparr>)"
    using faults_decode[OF h3] v3 by blast
  from h1 t1 h2 t2 h3 t3 h4 t4 show ?thesis
    by (intro conjI)
qed


section \<open>Decoding the temperatures\<close>

lemma read_data_ok:
  assumes "length (regs s) = 16"
  shows "fst (read_data s) = Inr () \<and> length (regs (snd (read_data s))) = 16"
proof -
  have sa: "CJTH_REG \<le> 16" by (simp add: CJTH_REG_def)
  show ?thesis
    unfolding read_data_def read_regs_run[OF sa] using assms
    by (simp add: set_slice_def CJTH_REG_def del: upt_Suc)
qed

lemma refresh_run:
  assumes "length (regs s) = 16"
  shows "(if read_chip then read_data else ret ()) s
           = (Inr (), if read_chip then snd (read_data s) else s)"
  using read_data_ok[OF assms] by (cases "read_data s") (simp add: ret_def)

lemma drop_step: "k < length r \<Longrightarrow> k' = Suc k \<Longrightarrow> drop k r = r ! k # drop k' r"
  by (simp add: Cons_nth_drop_Suc)

lemma slice2: "i + 2 \<le> length r \<Longrightarrow> slice r i (i + 2) = [r ! i, r ! (i + 1)]"
proof -
  assume a: "i + 2 \<le> length r"
  have d0: "drop i r = r ! i # drop (i + 1) r"
    by (rule drop_step) (use a in simp_all)
  have d1: "drop (i + 1) r = r ! (i + 1) # drop (i + 2) r"
    by (rule drop_step) (use a in simp_all)
  have "take 2 (drop i r) = [r ! i, r ! (i + 1)]"
    unfolding d0 d1 by simp
  then show ?thesis
    by (simp add: slice_def)
qed

lemma slice4:
  "i + 4 \<le> length r \<Longrightarrow> slice r i (i + 4) = [r ! i, r ! (i + 1), r ! (i + 2), r ! (i + 3)]"
proof -
  assume a: "i + 4 \<le> length r"
  have d0: "drop i r = r ! i # drop (i + 1) r"
    by (rule drop_step) (use a in simp_all)
  have d1: "drop (i + 1) r = r ! (i + 1) # drop (i + 2) r"
    by (rule drop_step) (use a in simp_all)
  have d2: "drop (i + 2) r = r ! (i + 2) # drop (i + 3) r"
    by (rule drop_step) (use a in simp_all)
  have d3: "drop (i + 3) r = r ! (i + 3) # drop (i + 4) r"
    by (rule drop_step) (use a in simp_all)
  have "take 4 (drop i r) = [r ! i, r ! (i + 1), r ! (i + 2), r ! (i + 3)]"
    unfolding d0 d1 d2 d3 by simp
  then show ?thesis
    by (simp add: slice_def)
qed

lemma be_uint2: "be_uint [a, b] = uint a * 256 + uint b"
  by (simp add: be_uint_def)

lemma be_uint4: "be_uint [a, b, c, d] = ((uint a * 256 + uint b) * 256 + uint c) * 256 + uint d"
  by (simp add: be_uint_def)

lemma cold_junction_run:
  assumes "length (regs s) = 16"
  shows "cold_junction read_chip s =
    (Inr (real_of_int (twos_complement 16
            (be_uint [regs (if read_chip then snd (read_data s) else s) ! CJTH_REG,
                      regs (if read_chip then snd (read_data s) else s) ! CJTL_REG])) * (1 / 256)),
     if read_chip then snd (read_data s) else s)"
proof -
  define t where "t = (if read_chip then snd (read_data s) else s)"
  have r: "(if read_chip then read_data else ret ()) s = (Inr (), t)"
    unfolding t_def by (rule refresh_run[OF assms])
  have l: "length (regs t) = 16"
    unfolding t_def using read_data_ok[OF assms] assms by simp
  have sl: "slice (regs t) CJTH_REG (CJTL_REG + 1) = [regs t ! CJTH_REG, regs t ! CJTL_REG]"
    using slice2[of CJTH_REG "regs t"] l by (simp add: CJTH_REG_def CJTL_REG_def)
  have "cold_junction read_chip s =
    (Inr (real_of_int (twos_complement 16 (be_uint [regs t ! CJTH_REG, regs t ! CJTL_REG]))
          * (1 / 256)), t)"
    unfolding cold_junction_def seq_def bnd_def r
    by (simp add: get_regs_def unpack_be_signed_def ret_def sl[simplified])
  then show ?thesis
    unfolding t_def .
qed

lemma temperature_run:
  assumes "length (regs s) = 16"
  shows "temperature read_chip s =
    (Inr (real_of_int (twos_complement 32
            (be_uint [regs (if read_chip then snd (read_data s) else s) ! LTCBH_REG,
                      regs (if read_chip then snd (read_data s) else s) ! LTCBM_REG,
                      regs (if read_chip then snd (read_data s) else s) ! LTCBL_REG,
                      regs (if read_chip then snd (read_data s) else s) ! SR_REG])) * temperature_scale),
     if read_chip then snd (read_data s) else s)"
proof -
  define t where "t = (if read_chip then snd (read_data s) else s)"
  have r: "(if read_chip then read_data else ret ()) s = (Inr (), t)"
    unfolding t_def by (rule refresh_run[OF assms])
  have l: "length (regs t) = 16"
    unfolding t_def using read_data_ok[OF assms] assms by simp
  have sl: "slice (regs t) LTCBH_REG (LTCBH_REG + 4)
              = [regs t ! LTCBH_REG, regs t ! LTCBM_REG, regs t ! LTCBL_REG, regs t ! SR_REG]"
    using slice4[of LTCBH_REG "regs t"] l
    by (simp add: LTCBH_REG_def LTCBM_REG_def LTCBL_REG_def SR_REG_def)
  have "temperature read_chip s =
    (Inr (real_of_int (twos_complement 32
            (be_uint [regs t ! LTCBH_REG, regs t ! LTCBM_REG, regs t ! LTCBL_REG, regs t ! SR_REG]))
          * temperature_scale), t)"
    unfolding temperature_def seq_def bnd_def r
    by (simp add: get_regs_def unpack_be_signed_def ret_def sl)
  then show ?thesis
    unfolding t_def .
qed

lemma byte_bounds: "0 \<le> uint (a :: byte) \<and> uint a < 256"
  using uint_bounded[of a] by simp

lemma twos_complement_sint16:
  assumes "0 \<le> v" and "v < 65536"
  shows "twos_complement 16 v = sint (word_of_int v :: 16 word)"
proof (cases "v < 32768")
  case True
  then have "(v + 32768) mod 65536 = v + 32768"
    using assms by simp
  then show ?thesis
    using True by (simp add: twos_complement_def int_word_sint)
next
  case False
  have "(v + 32768) mod 65536 = ((v - 32768) + 65536) mod 65536"
    by (simp add: add.commute)
  also have "\<dots> = (v - 32768) mod 65536"
    by (rule mod_add_self2)
  also have "\<dots> = v - 32768"
    using False assms by simp
  finally show ?thesis
    using False by (simp add: twos_complement_def int_word_sint)
qed

lemma twos_complement_sint32:
  assumes "0 \<le> v" and "v < 4294967296"
  shows "twos_complement 32 v = sint (word_of_int v :: 32 word)"
proof (cases "v < 2147483648")
  case True
  then have "(v + 2147483648) mod 4294967296 = v + 2147483648"
    using assms by simp
  then show ?thesis
    using True by (simp add: twos_complement_def int_word_sint)
next
  case False
  have "(v + 2147483648) mod 4294967296 = ((v - 2147483648) + 4294967296) mod 4294967296"
    by (simp add: add.commute)
  also have "\<dots> = (v - 2147483648) mod 4294967296"
    by (rule mod_add_self2)
  also have "\<dots> = v - 2147483648"
    using False assms by simp
  finally show ?thesis
    using False by (simp add: twos_complement_def int_word_sint)
qed

lemma be2_range: "0 \<le> uint (a :: byte) * 256 + uint (b :: byte)
                \<and> uint a * 256 + uint b < 65536"
  using byte_bounds[of a] byte_bounds[of b] by simp

lemma be3_range: "0 \<le> (uint (a :: byte) * 256 + uint (b :: byte)) * 256 + uint (c :: byte)
                \<and> (uint a * 256 + uint b) * 256 + uint c < 16777216"
  using byte_bounds[of a] byte_bounds[of b] byte_bounds[of c] by simp

lemma be4_range:
  "0 \<le> ((uint (a :: byte) * 256 + uint (b :: byte)) * 256 + uint (c :: byte)) * 256 + uint (d :: byte)
   \<and> ((uint a * 256 + uint b) * 256 + uint c) * 256 + uint d < 4294967296"
  using be3_range[of a b c] byte_bounds[of d] by simp

lemma low_byte_diff:
  assumes "0 \<le> h" and "0 \<le> x" "x < 256" "0 \<le> y" "y < 256"
  shows "twos_complement 32 (h * 256 + x) - twos_complement 32 (h * 256 + y) = x - y"
proof (cases "h \<ge> 2 ^ 23")
  case True
  then have "h * 256 + x \<ge> 2 ^ 31" "h * 256 + y \<ge> 2 ^ 31"
    using assms by simp_all
  then show ?thesis
    by (simp add: twos_complement_def)
next
  case False
  then have "h * 256 + x < 2 ^ 31" "h * 256 + y < 2 ^ 31"
    using assms by simp_all
  then show ?thesis
    by (simp add: twos_complement_def)
qed

lemma cold_junction_sint:
  assumes "length (regs s) = 16"
  shows "cold_junction False s =
           (Inr (real_of_int (sint (word_of_int
                   (uint (regs s ! CJTH_REG) * 256 + uint (regs s ! CJTL_REG)) :: 16 word))
                 * (1 / 256)), s)"
proof -
  have r: "0 \<le> uint (regs s ! CJTH_REG) * 256 + uint (regs s ! CJTL_REG)"
          "uint (regs s ! CJTH_REG) * 256 + uint (regs s ! CJTL_REG) < 65536"
    using be2_range[of "regs s ! CJTH_REG" "regs s ! CJTL_REG"] by simp_all
  show ?thesis
    using cold_junction_run[OF assms, of False]
    by (simp only: be_uint2 twos_complement_sint16[OF r] if_False)
qed

lemma cold_junction_refresh:
  assumes "length (regs s) = 16"
  shows "cold_junction True s = cold_junction False (snd (read_data s))"
proof -
  have l: "length (regs (snd (read_data s))) = 16"
    using read_data_ok[OF assms] by simp
  show ?thesis
    using cold_junction_run[OF assms, of True] cold_junction_run[OF l, of False]
    by (simp only: if_True if_False)
qed

lemma temperature_sint:
  assumes "length (regs s) = 16"
  shows "temperature False s =
           (Inr (real_of_int (sint (word_of_int
                   (((uint (regs s ! LTCBH_REG) * 256 + uint (regs s ! LTCBM_REG)) * 256
                     + uint (regs s ! LTCBL_REG)) * 256 + uint (regs s ! SR_REG)) :: 32 word))
                 * temperature_scale), s)"
proof -
  have r: "0 \<le> ((uint (regs s ! LTCBH_REG) * 256 + uint (regs s ! LTCBM_REG)) * 256
                  + uint (regs s ! LTCBL_REG)) * 256 + uint (regs s ! SR_REG)"
          "((uint (regs s ! LTCBH_REG) * 256 + uint (regs s ! LTCBM_REG)) * 256
                  + uint (regs s ! LTCBL_REG)) * 256 + uint (regs s ! SR_REG) < 4294967296"
    using be4_range[of "regs s ! LTCBH_REG" "regs s ! LTCBM_REG" "regs s ! LTCBL_REG"
                       "regs s ! SR_REG"] by simp_all
  show ?thesis
    using temperature_run[OF assms, of False]
    by (simp only: be_uint4 twos_complement_sint32[OF r] if_False)
qed

lemma temperature_refresh:
  assumes "length (regs s) = 16"
  shows "temperature True s = temperature False (snd (read_data s))"
proof -
  have l: "length (regs (snd (read_data s))) = 16"
    using read_data_ok[OF assms] by simp
  show ?thesis
    using temperature_run[OF assms, of True] temperature_run[OF l, of False]
    by (simp only: if_True if_False)
qed


lemma temperature_low_byte:
  assumes "length (regs s) = 16" and "length (regs s') = 16"
      and "\<forall>i < 16. i \<noteq> SR_REG \<longrightarrow> regs s' ! i = regs s ! i"
  shows "projr (fst (temperature False s)) - projr (fst (temperature False s'))
           = real_of_int (uint (regs s ! SR_REG) - uint (regs s' ! SR_REG)) * temperature_scale"
proof -
  define h where "h = (uint (regs s ! LTCBH_REG) * 256 + uint (regs s ! LTCBM_REG)) * 256
                        + uint (regs s ! LTCBL_REG)"
  have e: "regs s' ! LTCBH_REG = regs s ! LTCBH_REG" "regs s' ! LTCBM_REG = regs s ! LTCBM_REG"
          "regs s' ! LTCBL_REG = regs s ! LTCBL_REG"
    using assms(3) by (simp_all add: LTCBH_REG_def LTCBM_REG_def LTCBL_REG_def SR_REG_def)
  have h0: "0 \<le> h"
    unfolding h_def using be3_range[of "regs s ! LTCBH_REG" "regs s ! LTCBM_REG" "regs s ! LTCBL_REG"]
    by simp
  have t: "temperature False s =
             (Inr (real_of_int (twos_complement 32 (h * 256 + uint (regs s ! SR_REG)))
                   * temperature_scale), s)"
    using temperature_run[OF assms(1), of False] by (simp only: be_uint4 h_def if_False)
  have t': "temperature False s' =
             (Inr (real_of_int (twos_complement 32 (h * 256 + uint (regs s' ! SR_REG)))
                   * temperature_scale), s')"
    using temperature_run[OF assms(2), of False] by (simp only: be_uint4 h_def if_False e)
  have d: "twos_complement 32 (h * 256 + uint (regs s ! SR_REG))
             - twos_complement 32 (h * 256 + uint (regs s' ! SR_REG))
           = uint (regs s ! SR_REG) - uint (regs s' ! SR_REG)"
    using byte_bounds[of "regs s ! SR_REG"] byte_bounds[of "regs s' ! SR_REG"]
    by (intro low_byte_diff[OF h0]) simp_all
  have "projr (fst (temperature False s)) - projr (fst (temperature False s'))
          = real_of_int (twos_complement 32 (h * 256 + uint (regs s ! SR_REG))
                         - twos_complement 32 (h * 256 + uint (regs s' ! SR_REG)))
            * temperature_scale"
    unfolding t t' by (simp add: algebra_simps)
  then show ?thesis
    unfolding d .
qed

lemma scale_pos: "0 < temperature_scale"
  by (simp add: temperature_scale_def)


text \<open>
  Claim C9. \<open>cold_junction()\<close> reads the register pair at 0x0A and 0x0B as one big-endian
  16-bit two's-complement integer and returns it multiplied by \<open>1/256\<close>; with
  \<open>read_chip\<close> it does so after one \<open>read_data()\<close>. The pair 0x19, 0x00 (6400) gives
  exactly 25 and the pair 0xF7, 0x00 (-2304) gives exactly -9.
\<close>

theorem cold_junction_decode:
  assumes "length (regs s) = 16"
  shows "cold_junction False s =
           (Inr (real_of_int (sint (word_of_int
                   (uint (regs s ! CJTH_REG) * 256 + uint (regs s ! CJTL_REG)) :: 16 word))
                 * (1 / 256)), s)
       \<and> fst (read_data s) = Inr ()
       \<and> cold_junction True s = cold_junction False (snd (read_data s))
       \<and> CJTH_REG = 0x0A \<and> CJTL_REG = 0x0B
       \<and> (regs s ! CJTH_REG = 0x19 \<and> regs s ! CJTL_REG = 0x00
            \<longrightarrow> cold_junction False s = (Inr 25, s))
       \<and> (regs s ! CJTH_REG = 0xF7 \<and> regs s ! CJTL_REG = 0x00
            \<longrightarrow> cold_junction False s = (Inr (- 9), s))
       \<and> sint (0x1900 :: 16 word) = 6400 \<and> sint (0xF700 :: 16 word) = - 2304"
proof -
  note r = cold_junction_sint[OF assms]
  have rd: "fst (read_data s) = Inr ()"
    using read_data_ok[OF assms] by simp
  note rf = cold_junction_refresh[OF assms]
  have k: "CJTH_REG = 0x0A \<and> CJTL_REG = 0x0B"
    by (simp add: CJTH_REG_def CJTL_REG_def)
  have a: "regs s ! CJTH_REG = 0x19 \<and> regs s ! CJTL_REG = 0x00
            \<longrightarrow> cold_junction False s = (Inr 25, s)"
    unfolding r by simp
  have b: "regs s ! CJTH_REG = 0xF7 \<and> regs s ! CJTL_REG = 0x00
            \<longrightarrow> cold_junction False s = (Inr (- 9), s)"
    unfolding r by simp
  have c: "sint (0x1900 :: 16 word) = 6400 \<and> sint (0xF700 :: 16 word) = - 2304"
    by simp
  from r rd rf k a b c show ?thesis
    by (intro conjI) simp_all
qed

theorem cold_junction_decode_witness:
  "length (regs demo_state) = 16
   \<and> cold_junction False demo_state = (Inr 25, demo_state)
   \<and> length (regs (demo_state\<lparr>regs := demo_regs[CJTH_REG := 0xF7]\<rparr>)) = 16
   \<and> cold_junction False (demo_state\<lparr>regs := demo_regs[CJTH_REG := 0xF7]\<rparr>)
       = (Inr (- 9), demo_state\<lparr>regs := demo_regs[CJTH_REG := 0xF7]\<rparr>)
   \<and> cold_junction True demo_state = cold_junction False (snd (read_data demo_state))"
proof -
  have lr: "length demo_regs = 16" by (simp add: demo_regs_def)
  have h1: "length (regs demo_state) = 16" by (simp add: demo_state_def lr)
  have h2: "length (regs (demo_state\<lparr>regs := demo_regs[CJTH_REG := 0xF7]\<rparr>)) = 16"
    by (simp add: lr)
  have v1: "regs demo_state ! CJTH_REG = 0x19 \<and> regs demo_state ! CJTL_REG = 0x00"
    by (simp add: demo_state_def demo_regs_def CJTH_REG_def CJTL_REG_def)
  have v2: "regs (demo_state\<lparr>regs := demo_regs[CJTH_REG := 0xF7]\<rparr>) ! CJTH_REG = 0xF7
          \<and> regs (demo_state\<lparr>regs := demo_regs[CJTH_REG := 0xF7]\<rparr>) ! CJTL_REG = 0x00"
    by (simp add: demo_regs_def CJTH_REG_def CJTL_REG_def)
  show ?thesis
    using cold_junction_decode[OF h1] cold_junction_decode[OF h2] h1 h2 v1 v2 by blast
qed

text \<open>
  Claim C10. \<open>temperature(read_chip=False)\<close> decodes the four mirror bytes at 0x0C to 0x0F,
  the status register byte at 0x0F being the least-significant byte of the signed integer.
  Two mirrors that differ only in the status byte return temperatures whose difference is
  the difference of the two status bytes times the scale factor: at most 255 times the
  scale, and exactly that for the status bytes 0xFF and 0x00.
\<close>

theorem temperature_status_byte:
  assumes "length (regs s) = 16" and "length (regs s') = 16"
      and "\<forall>i < 16. i \<noteq> SR_REG \<longrightarrow> regs s' ! i = regs s ! i"
  shows "temperature False s =
           (Inr (real_of_int (sint (word_of_int
                   (((uint (regs s ! LTCBH_REG) * 256 + uint (regs s ! LTCBM_REG)) * 256
                     + uint (regs s ! LTCBL_REG)) * 256 + uint (regs s ! SR_REG)) :: 32 word))
                 * temperature_scale), s)
       \<and> LTCBH_REG = 0x0C \<and> LTCBM_REG = 0x0D \<and> LTCBL_REG = 0x0E \<and> SR_REG = 0x0F
       \<and> temperature_scale = 953674316406 / 10 ^ 18
       \<and> projr (fst (temperature False s)) - projr (fst (temperature False s'))
           = real_of_int (uint (regs s ! SR_REG) - uint (regs s' ! SR_REG)) * temperature_scale
       \<and> \<bar>projr (fst (temperature False s)) - projr (fst (temperature False s'))\<bar>
           \<le> 255 * temperature_scale
       \<and> (regs s ! SR_REG = 0xFF \<and> regs s' ! SR_REG = 0x00
            \<longrightarrow> projr (fst (temperature False s)) - projr (fst (temperature False s'))
                  = 255 * temperature_scale)"
proof -
  note a = temperature_sint[OF assms(1)]
  have k: "LTCBH_REG = 0x0C \<and> LTCBM_REG = 0x0D \<and> LTCBL_REG = 0x0E \<and> SR_REG = 0x0F"
    by (simp add: LTCBH_REG_def LTCBM_REG_def LTCBL_REG_def SR_REG_def)
  have sc: "temperature_scale = 953674316406 / 10 ^ 18"
    by (simp add: temperature_scale_def)
  note d = temperature_low_byte[OF assms]
  have bd: "\<bar>uint (regs s ! SR_REG) - uint (regs s' ! SR_REG)\<bar> \<le> 255"
    using byte_bounds[of "regs s ! SR_REG"] byte_bounds[of "regs s' ! SR_REG"] by arith
  have "\<bar>real_of_int (uint (regs s ! SR_REG) - uint (regs s' ! SR_REG)) * temperature_scale\<bar>
          = real_of_int \<bar>uint (regs s ! SR_REG) - uint (regs s' ! SR_REG)\<bar> * temperature_scale"
    using scale_pos by (simp add: abs_mult)
  also have "\<dots> \<le> real_of_int 255 * temperature_scale"
  proof (rule mult_right_mono)
    show "real_of_int \<bar>uint (regs s ! SR_REG) - uint (regs s' ! SR_REG)\<bar> \<le> real_of_int 255"
      using bd by (simp only: of_int_le_iff)
    show "0 \<le> temperature_scale"
      using scale_pos by simp
  qed
  finally have b: "\<bar>projr (fst (temperature False s)) - projr (fst (temperature False s'))\<bar>
           \<le> 255 * temperature_scale"
    unfolding d by simp
  have c: "regs s ! SR_REG = 0xFF \<and> regs s' ! SR_REG = 0x00
            \<longrightarrow> projr (fst (temperature False s)) - projr (fst (temperature False s'))
                  = 255 * temperature_scale"
    unfolding d by simp
  show ?thesis
    using a k sc d b c by blast
qed

theorem temperature_status_byte_witness:
  "length (regs (demo_state\<lparr>regs := demo_regs[SR_REG := 0xFF]\<rparr>)) = 16
   \<and> length (regs (demo_state\<lparr>regs := demo_regs[SR_REG := 0x00]\<rparr>)) = 16
   \<and> temperature False (demo_state\<lparr>regs := demo_regs[SR_REG := 0xFF]\<rparr>)
       = (Inr (100095 * (953674316406 / 10 ^ 18)), demo_state\<lparr>regs := demo_regs[SR_REG := 0xFF]\<rparr>)
   \<and> projr (fst (temperature False (demo_state\<lparr>regs := demo_regs[SR_REG := 0xFF]\<rparr>)))
       - projr (fst (temperature False (demo_state\<lparr>regs := demo_regs[SR_REG := 0x00]\<rparr>)))
       = 255 * (953674316406 / 10 ^ 18)"
proof -
  have lr: "length demo_regs = 16" by (simp add: demo_regs_def)
  have sr: "SR_REG < length demo_regs"
    by (simp add: lr SR_REG_def)
  have h1: "length (regs (demo_state\<lparr>regs := demo_regs[SR_REG := 0xFF]\<rparr>)) = 16"
    by (simp add: lr)
  have h2: "length (regs (demo_state\<lparr>regs := demo_regs[SR_REG := 0x00]\<rparr>)) = 16"
    by (simp add: lr)
  have h3: "\<forall>i < 16. i \<noteq> SR_REG \<longrightarrow>
         regs (demo_state\<lparr>regs := demo_regs[SR_REG := 0x00]\<rparr>) ! i
           = regs (demo_state\<lparr>regs := demo_regs[SR_REG := 0xFF]\<rparr>) ! i"
    by simp
  have v1: "regs (demo_state\<lparr>regs := demo_regs[SR_REG := 0xFF]\<rparr>) ! SR_REG = 0xFF"
    using sr by simp
  have v2: "regs (demo_state\<lparr>regs := demo_regs[SR_REG := 0x00]\<rparr>) ! SR_REG = 0x00"
    using sr by simp
  have v3: "regs (demo_state\<lparr>regs := demo_regs[SR_REG := 0xFF]\<rparr>) ! LTCBH_REG = 0x00"
           "regs (demo_state\<lparr>regs := demo_regs[SR_REG := 0xFF]\<rparr>) ! LTCBM_REG = 0x01"
           "regs (demo_state\<lparr>regs := demo_regs[SR_REG := 0xFF]\<rparr>) ! LTCBL_REG = 0x86"
    by (simp_all add: demo_regs_def SR_REG_def LTCBH_REG_def LTCBM_REG_def LTCBL_REG_def)
  note t = temperature_status_byte[OF h1 h2 h3]
  have sc: "temperature_scale = 953674316406 / 10 ^ 18"
    using t by blast
  have t1: "temperature False (demo_state\<lparr>regs := demo_regs[SR_REG := 0xFF]\<rparr>)
       = (Inr (100095 * (953674316406 / 10 ^ 18)), demo_state\<lparr>regs := demo_regs[SR_REG := 0xFF]\<rparr>)"
    using conjunct1[OF t] unfolding v1 v3 sc by simp
  have t2: "projr (fst (temperature False (demo_state\<lparr>regs := demo_regs[SR_REG := 0xFF]\<rparr>)))
       - projr (fst (temperature False (demo_state\<lparr>regs := demo_regs[SR_REG := 0x00]\<rparr>)))
       = 255 * temperature_scale"
    using t v1 v2 by blast
  from h1 h2 t1 t2[unfolded sc] show ?thesis
    by (intro conjI)
qed


text \<open>
  Claim C2, as stated, fails on its own example: with the bytes 0x00, 0x01, 0x86, 0xA0
  (100000) at 0x0C to 0x0F, \<open>temperature()\<close> returns \<open>100000 * 9.53674316406e-7\<close>, which is
  about 0.0954 and not within 0.01 of 95.37.
\<close>

theorem temperature_example_counterexample:
  "slice (regs demo_state) LTCBH_REG (LTCBH_REG + 4) = [0x00, 0x01, 0x86, 0xA0]
   \<and> temperature False demo_state = (Inr (953674316406 / 10 ^ 13), demo_state)
   \<and> \<not> \<bar>projr (fst (temperature False demo_state)) - 9537 / 100\<bar> \<le> 1 / 100"
proof -
  have lr: "length (regs demo_state) = 16"
    by (simp add: demo_state_def demo_regs_def)
  have sl: "slice (regs demo_state) LTCBH_REG (LTCBH_REG + 4) = [0x00, 0x01, 0x86, 0xA0]"
    by (simp add: slice_def demo_state_def demo_regs_def LTCBH_REG_def)
  have v: "regs demo_state ! LTCBH_REG = 0x00" "regs demo_state ! LTCBM_REG = 0x01"
          "regs demo_state ! LTCBL_REG = 0x86" "regs demo_state ! SR_REG = 0xA0"
    by (simp_all add: demo_state_def demo_regs_def SR_REG_def LTCBH_REG_def LTCBM_REG_def
        LTCBL_REG_def)
  have t: "temperature False demo_state = (Inr (953674316406 / 10 ^ 13), demo_state)"
    using temperature_sint[OF lr] unfolding v by (simp add: temperature_scale_def)
  have n: "\<not> \<bar>projr (fst (temperature False demo_state)) - 9537 / 100\<bar> \<le> 1 / 100"
    unfolding t by simp
  from sl t n show ?thesis
    by (intro conjI)
qed


text \<open>
  Claim C2, amended. \<open>temperature()\<close> decodes the four mirror bytes at 0x0C to 0x0F as one
  big-endian 32-bit two's-complement integer and returns it multiplied by the scale factor
  \<open>9.53674316406e-7\<close>; with \<open>read_chip\<close> it does so after one \<open>read_data()\<close>. The value
  0x000186A0 (100000) gives 0.0953674316406, within 0.0001 of 0.0954, and 0xFFFE7960
  (-100000) gives -0.0953674316406.
\<close>

theorem temperature_decode:
  assumes "length (regs s) = 16"
  shows "temperature False s =
           (Inr (real_of_int (sint (word_of_int
                   (((uint (regs s ! LTCBH_REG) * 256 + uint (regs s ! LTCBM_REG)) * 256
                     + uint (regs s ! LTCBL_REG)) * 256 + uint (regs s ! SR_REG)) :: 32 word))
                 * (953674316406 / 10 ^ 18)), s)
       \<and> fst (read_data s) = Inr ()
       \<and> temperature True s = temperature False (snd (read_data s))
       \<and> LTCBH_REG = 0x0C \<and> LTCBM_REG = 0x0D \<and> LTCBL_REG = 0x0E \<and> SR_REG = 0x0F
       \<and> (regs s ! LTCBH_REG = 0x00 \<and> regs s ! LTCBM_REG = 0x01
          \<and> regs s ! LTCBL_REG = 0x86 \<and> regs s ! SR_REG = 0xA0
            \<longrightarrow> temperature False s = (Inr (953674316406 / 10 ^ 13), s))
       \<and> (regs s ! LTCBH_REG = 0xFF \<and> regs s ! LTCBM_REG = 0xFE
          \<and> regs s ! LTCBL_REG = 0x79 \<and> regs s ! SR_REG = 0x60
            \<longrightarrow> temperature False s = (Inr (- (953674316406 / 10 ^ 13)), s))
       \<and> sint (0x000186A0 :: 32 word) = 100000 \<and> sint (0xFFFE7960 :: 32 word) = - 100000
       \<and> \<bar>(953674316406 / 10 ^ 13 :: real) - 954 / 10000\<bar> \<le> 1 / 10000"
proof -
  have a: "temperature False s =
           (Inr (real_of_int (sint (word_of_int
                   (((uint (regs s ! LTCBH_REG) * 256 + uint (regs s ! LTCBM_REG)) * 256
                     + uint (regs s ! LTCBL_REG)) * 256 + uint (regs s ! SR_REG)) :: 32 word))
                 * (953674316406 / 10 ^ 18)), s)"
    using temperature_sint[OF assms] unfolding temperature_scale_def .
  have rd: "fst (read_data s) = Inr ()"
    using read_data_ok[OF assms] by simp
  note rf = temperature_refresh[OF assms]
  have k: "LTCBH_REG = 0x0C \<and> LTCBM_REG = 0x0D \<and> LTCBL_REG = 0x0E \<and> SR_REG = 0x0F"
    by (simp add: LTCBH_REG_def LTCBM_REG_def LTCBL_REG_def SR_REG_def)
  have p: "regs s ! LTCBH_REG = 0x00 \<and> regs s ! LTCBM_REG = 0x01
          \<and> regs s ! LTCBL_REG = 0x86 \<and> regs s ! SR_REG = 0xA0
            \<longrightarrow> temperature False s = (Inr (953674316406 / 10 ^ 13), s)"
    unfolding a by simp
  have q: "regs s ! LTCBH_REG = 0xFF \<and> regs s ! LTCBM_REG = 0xFE
          \<and> regs s ! LTCBL_REG = 0x79 \<and> regs s ! SR_REG = 0x60
            \<longrightarrow> temperature False s = (Inr (- (953674316406 / 10 ^ 13)), s)"
    unfolding a by simp
  have c: "sint (0x000186A0 :: 32 word) = 100000 \<and> sint (0xFFFE7960 :: 32 word) = - 100000"
    by simp
  have e: "\<bar>(953674316406 / 10 ^ 13 :: real) - 954 / 10000\<bar> \<le> 1 / 10000"
    by simp
  show ?thesis
    using a rd rf k p q c e by blast
qed

theorem temperature_decode_witness:
  "length (regs demo_state) = 16
   \<and> temperature False demo_state = (Inr (953674316406 / 10 ^ 13), demo_state)
   \<and> length (regs (demo_state\<lparr>regs := take 12 demo_regs @ [0xFF, 0xFE, 0x79, 0x60]\<rparr>)) = 16
   \<and> temperature False (demo_state\<lparr>regs := take 12 demo_regs @ [0xFF, 0xFE, 0x79, 0x60]\<rparr>)
       = (Inr (- (953674316406 / 10 ^ 13)),
          demo_state\<lparr>regs := take 12 demo_regs @ [0xFF, 0xFE, 0x79, 0x60]\<rparr>)
   \<and> temperature True demo_state = temperature False (snd (read_data demo_state))"
proof -
  have lr: "length demo_regs = 16" by (simp add: demo_regs_def)
  have h1: "length (regs demo_state) = 16" by (simp add: demo_state_def lr)
  have h2: "length (regs (demo_state\<lparr>regs := take 12 demo_regs @ [0xFF, 0xFE, 0x79, 0x60]\<rparr>)) = 16"
    by (simp add: lr)
  have v1: "regs demo_state ! LTCBH_REG = 0x00 \<and> regs demo_state ! LTCBM_REG = 0x01
          \<and> regs demo_state ! LTCBL_REG = 0x86 \<and> regs demo_state ! SR_REG = 0xA0"
    by (simp add: demo_state_def demo_regs_def SR_REG_def LTCBH_REG_def LTCBM_REG_def
        LTCBL_REG_def)
  have v2: "regs (demo_state\<lparr>regs := take 12 demo_regs @ [0xFF, 0xFE, 0x79, 0x60]\<rparr>) ! LTCBH_REG = 0xFF
          \<and> regs (demo_state\<lparr>regs := take 12 demo_regs @ [0xFF, 0xFE, 0x79, 0x60]\<rparr>) ! LTCBM_REG = 0xFE
          \<and> regs (demo_state\<lparr>regs := take 12 demo_regs @ [0xFF, 0xFE, 0x79, 0x60]\<rparr>) ! LTCBL_REG = 0x79
          \<and> regs (demo_state\<lparr>regs := take 12 demo_regs @ [0xFF, 0xFE, 0x79, 0x60]\<rparr>) ! SR_REG = 0x60"
    by (simp add: demo_regs_def SR_REG_def LTCBH_REG_def LTCBM_REG_def LTCBL_REG_def)
  show ?thesis
    using temperature_decode[OF h1] temperature_decode[OF h2] h1 h2 v1 v2 by blast
qed

end
